theory Spec2Isabelle
  imports Complex_Main
begin

section \<open>Particle animation engine: client/src/components/galaxy-background.tsx\<close>

text \<open>
  JavaScript numbers are modelled as real numbers: the arithmetic of the animation is
  additions and multiplications of small magnitudes, and no statement below depends on
  rounding. The canvas dimensions are unsigned integers, as the attributes
  \<^verbatim>\<open>canvas.width\<close> and \<^verbatim>\<open>canvas.height\<close> are.

  \<^verbatim>\<open>Math.random()\<close> is the only source of nondeterminism. The sequence of values it
  will return is a parameter of the model, an infinite sequence of which every call
  takes the head. The runtime promises values in the half-open interval from 0 to 1;
  the statements that need it assume \<open>rng_ok\<close>.
\<close>

type_synonym rng = "nat \<Rightarrow> real"

definition Math_random :: "rng \<Rightarrow> real \<times> rng" where
  "Math_random g = (g 0, \<lambda>n. g (Suc n))"

definition rng_ok :: "rng \<Rightarrow> bool" where
  "rng_ok g \<longleftrightarrow> (\<forall>n. 0 \<le> g n \<and> g n < 1)"

subsection \<open>The particle interfaces\<close>

text \<open>
  Four interfaces share the field names \<open>x\<close> and \<open>y\<close>, so a field is written with its
  interface where it matters (\<open>Star.x\<close>). The fields \<^verbatim>\<open>size\<close> and \<^verbatim>\<open>length\<close> carry a
  prime, the names being taken. A colour read from a table by a computed index is
  \<open>None\<close> where the index is out of range (JavaScript yields \<^verbatim>\<open>undefined\<close>).
\<close>

record Star =
  x :: real
  y :: real
  size' :: real
  brightness :: real
  twinkleSpeed :: real
  twinklePhase :: real
  color :: "string option"

record NebulaCloud =
  x :: real
  y :: real
  radius :: real
  opacity :: real
  rotation :: real
  rotationSpeed :: real
  pulsePhase :: real
  color :: "string option"

record CosmicDust =
  x :: real
  y :: real
  vx :: real
  vy :: real
  size' :: real
  opacity :: real
  life :: real
  maxLife :: real

record ShootingStar =
  x :: real
  y :: real
  vx :: real
  vy :: real
  length' :: real
  opacity :: real
  life :: real

text \<open>The canvas and the four arrays the effect closes over.\<close>

record galaxy =
  width :: nat
  height :: nat
  stars :: "Star list"
  nebulaClouds :: "NebulaCloud list"
  cosmicDust :: "CosmicDust list"
  shootingStars :: "ShootingStar list"

definition starCount :: nat where "starCount = 300"
definition nebulaCount :: nat where "nebulaCount = 12"
definition dustCount :: nat where "dustCount = 150"

definition starColors :: "string list" where
  "starColors = [''#ffffff'', ''#fff8dc'', ''#e6e6fa'', ''#ffd700'', ''#87ceeb'']"

definition nebulaColors :: "string list" where
  "nebulaColors = [''#4b0082'', ''#8b008b'', ''#483d8b'', ''#6a5acd'', ''#9370db'']"

text \<open>\<^verbatim>\<open>table[Math.floor(r * 5)]\<close>\<close>

definition pick :: "string list \<Rightarrow> real \<Rightarrow> string option" where
  "pick table r =
     (let i = \<lfloor>r * 5\<rfloor>
      in if 0 \<le> i \<and> nat i < length table then Some (table ! nat i) else None)"

subsection \<open>Resizing\<close>

text \<open>
  \<^verbatim>\<open>resizeCanvas\<close> copies the window's inner size to the canvas. The window's size at
  the time of the call is the argument.
\<close>

definition resizeCanvas :: "nat \<Rightarrow> nat \<Rightarrow> galaxy \<Rightarrow> galaxy" where
  "resizeCanvas innerWidth innerHeight st = st\<lparr>width := innerWidth, height := innerHeight\<rparr>"

subsection \<open>Creating the populations\<close>

text \<open>
  The properties of an object literal are evaluated in the order written, so the draws
  are taken in that order.
\<close>

definition createStar :: "nat \<Rightarrow> nat \<Rightarrow> rng \<Rightarrow> Star \<times> rng" where
  "createStar w h g0 =
     (case Math_random g0 of (r1, g1) \<Rightarrow>
      case Math_random g1 of (r2, g2) \<Rightarrow>
      case Math_random g2 of (r3, g3) \<Rightarrow>
      case Math_random g3 of (r4, g4) \<Rightarrow>
      case Math_random g4 of (r5, g5) \<Rightarrow>
      case Math_random g5 of (r6, g6) \<Rightarrow>
      case Math_random g6 of (r7, g7) \<Rightarrow>
        (\<lparr>Star.x = r1 * real w,
          Star.y = r2 * real h,
          Star.size' = r3 * 3 + 0.5,
          brightness = r4,
          twinkleSpeed = r5 * 0.08 + 0.02,
          twinklePhase = r6 * pi * 2,
          Star.color = pick starColors r7\<rparr>, g7))"

definition createNebulaCloud :: "nat \<Rightarrow> nat \<Rightarrow> rng \<Rightarrow> NebulaCloud \<times> rng" where
  "createNebulaCloud w h g0 =
     (case Math_random g0 of (r1, g1) \<Rightarrow>
      case Math_random g1 of (r2, g2) \<Rightarrow>
      case Math_random g2 of (r3, g3) \<Rightarrow>
      case Math_random g3 of (r4, g4) \<Rightarrow>
      case Math_random g4 of (r5, g5) \<Rightarrow>
      case Math_random g5 of (r6, g6) \<Rightarrow>
      case Math_random g6 of (r7, g7) \<Rightarrow>
        (\<lparr>NebulaCloud.x = r1 * real w,
          NebulaCloud.y = r2 * real h,
          radius = r3 * 150 + 50,
          NebulaCloud.opacity = r4 * 0.3 + 0.1,
          rotation = 0,
          rotationSpeed = (r5 - 0.5) * 0.02,
          pulsePhase = r6 * pi * 2,
          NebulaCloud.color = pick nebulaColors r7\<rparr>, g7))"

definition createCosmicDust :: "nat \<Rightarrow> nat \<Rightarrow> rng \<Rightarrow> CosmicDust \<times> rng" where
  "createCosmicDust w h g0 =
     (case Math_random g0 of (r1, g1) \<Rightarrow>
      case Math_random g1 of (r2, g2) \<Rightarrow>
      case Math_random g2 of (r3, g3) \<Rightarrow>
      case Math_random g3 of (r4, g4) \<Rightarrow>
      case Math_random g4 of (r5, g5) \<Rightarrow>
      case Math_random g5 of (r6, g6) \<Rightarrow>
      case Math_random g6 of (r7, g7) \<Rightarrow>
        (\<lparr>CosmicDust.x = r1 * real w,
          CosmicDust.y = r2 * real h,
          CosmicDust.vx = (r3 - 0.5) * 2,
          CosmicDust.vy = (r4 - 0.5) * 2,
          CosmicDust.size' = r5 * 2.5 + 0.5,
          CosmicDust.opacity = r6 * 0.9 + 0.3,
          CosmicDust.life = r7 * 1000,
          maxLife = 1000\<rparr>, g7))"

text \<open>
  \<^verbatim>\<open>for (let i = 0; i < n; i++) array.push(create())\<close>: the elements in the order
  pushed.
\<close>

fun populate :: "(rng \<Rightarrow> 'a \<times> rng) \<Rightarrow> nat \<Rightarrow> rng \<Rightarrow> 'a list \<times> rng" where
  "populate create 0 g = ([], g)"
| "populate create (Suc n) g =
     (case create g of (p, g') \<Rightarrow>
      case populate create n g' of (ps, g'') \<Rightarrow> (p # ps, g''))"

text \<open>
  The body of the effect up to the first frame: the canvas takes the window's size, the
  three fixed populations are created, and there is no shooting star yet.
\<close>

definition mount :: "nat \<Rightarrow> nat \<Rightarrow> rng \<Rightarrow> galaxy \<times> rng" where
  "mount innerWidth innerHeight g0 =
     (case populate (createStar innerWidth innerHeight) starCount g0 of (ss, g1) \<Rightarrow>
      case populate (createNebulaCloud innerWidth innerHeight) nebulaCount g1 of (ns, g2) \<Rightarrow>
      case populate (createCosmicDust innerWidth innerHeight) dustCount g2 of (ds, g3) \<Rightarrow>
        (\<lparr>width = innerWidth, height = innerHeight, stars = ss, nebulaClouds = ns,
          cosmicDust = ds, shootingStars = []\<rparr>, g3))"

text \<open>
  \<^verbatim>\<open>createShootingStar\<close>: one draw decides, six more build the star, which is pushed at
  the end of the array.
\<close>

definition createShootingStar ::
  "nat \<Rightarrow> nat \<Rightarrow> ShootingStar list \<Rightarrow> rng \<Rightarrow> ShootingStar list \<times> rng" where
  "createShootingStar w h active g0 =
     (case Math_random g0 of (r0, g1) \<Rightarrow>
      if r0 < 0.008 then
        (case Math_random g1 of (r1, g2) \<Rightarrow>
         case Math_random g2 of (r2, g3) \<Rightarrow>
         case Math_random g3 of (r3, g4) \<Rightarrow>
         case Math_random g4 of (r4, g5) \<Rightarrow>
         case Math_random g5 of (r5, g6) \<Rightarrow>
         case Math_random g6 of (r6, g7) \<Rightarrow>
           (active @ [\<lparr>ShootingStar.x = r1 * real w,
                       ShootingStar.y = r2 * real h * 0.5,
                       ShootingStar.vx = r3 * 8 + 4,
                       ShootingStar.vy = r4 * 4 + 2,
                       length' = r5 * 80 + 50,
                       ShootingStar.opacity = 1,
                       ShootingStar.life = r6 * 150 + 80\<rparr>], g7))
      else (active, g1))"

subsection \<open>Drawing\<close>

text \<open>
  Of the drawing functions only the opacity they hand to the canvas is modelled:
  \<^verbatim>\<open>drawStar\<close> sets \<^verbatim>\<open>globalAlpha\<close> to \<open>currentBrightness\<close>.
\<close>

definition twinkle :: "Star \<Rightarrow> real" where
  "twinkle star = 0.5 + 0.5 * sin (twinklePhase star)"

definition currentBrightness :: "Star \<Rightarrow> real" where
  "currentBrightness star = brightness star * twinkle star"

definition baseOpacity :: "NebulaCloud \<Rightarrow> real" where
  "baseOpacity cloud = NebulaCloud.opacity cloud * (0.8 + 0.4 * sin (pulsePhase cloud))"

subsection \<open>One frame\<close>

text \<open>The callback of \<^verbatim>\<open>nebulaClouds.forEach\<close>; the drift reads the phase just advanced.\<close>

definition updateNebulaCloud :: "NebulaCloud \<Rightarrow> NebulaCloud" where
  "updateNebulaCloud cloud =
     (let c1 = cloud\<lparr>rotation := rotation cloud + rotationSpeed cloud\<rparr>;
          c2 = c1\<lparr>pulsePhase := pulsePhase c1 + 0.08\<rparr>;
          c3 = c2\<lparr>NebulaCloud.x := NebulaCloud.x c2 + sin (pulsePhase c2 * 0.5) * 0.3\<rparr>
      in c3\<lparr>NebulaCloud.y := NebulaCloud.y c3 + cos (pulsePhase c3 * 0.3) * 0.2\<rparr>)"

text \<open>The callback of \<^verbatim>\<open>cosmicDust.forEach\<close>; the four edge tests run in sequence.\<close>

definition updateCosmicDust :: "nat \<Rightarrow> nat \<Rightarrow> CosmicDust \<Rightarrow> rng \<Rightarrow> CosmicDust \<times> rng" where
  "updateCosmicDust w h dust g =
     (let d1 = dust\<lparr>CosmicDust.x := CosmicDust.x dust + CosmicDust.vx dust\<rparr>;
          d2 = d1\<lparr>CosmicDust.y := CosmicDust.y d1 + CosmicDust.vy d1\<rparr>;
          d3 = d2\<lparr>CosmicDust.life := CosmicDust.life d2 - 1\<rparr>;
          d4 = (if CosmicDust.x d3 < 0 then d3\<lparr>CosmicDust.x := real w\<rparr> else d3);
          d5 = (if CosmicDust.x d4 > real w then d4\<lparr>CosmicDust.x := 0\<rparr> else d4);
          d6 = (if CosmicDust.y d5 < 0 then d5\<lparr>CosmicDust.y := real h\<rparr> else d5);
          d7 = (if CosmicDust.y d6 > real h then d6\<lparr>CosmicDust.y := 0\<rparr> else d6)
      in if CosmicDust.life d7 \<le> 0 then
           (case Math_random g of (r, g') \<Rightarrow>
              (d7\<lparr>CosmicDust.life := maxLife d7, CosmicDust.opacity := r * 0.8 + 0.2\<rparr>, g'))
         else (d7, g))"

fun updateAllDust :: "nat \<Rightarrow> nat \<Rightarrow> CosmicDust list \<Rightarrow> rng \<Rightarrow> CosmicDust list \<times> rng" where
  "updateAllDust w h [] g = ([], g)"
| "updateAllDust w h (d # ds) g =
     (case updateCosmicDust w h d g of (d', g') \<Rightarrow>
      case updateAllDust w h ds g' of (ds', g'') \<Rightarrow> (d' # ds', g''))"

text \<open>The callback of \<^verbatim>\<open>stars.forEach\<close>.\<close>

definition updateStar :: "Star \<Rightarrow> Star" where
  "updateStar star = star\<lparr>twinklePhase := twinklePhase star + twinkleSpeed star\<rparr>"

text \<open>
  The callback of \<^verbatim>\<open>shootingStars.forEach\<close>: the four assignments, then the test that
  decides between \<^verbatim>\<open>splice\<close> and drawing.
\<close>

definition moveShootingStar :: "ShootingStar \<Rightarrow> ShootingStar" where
  "moveShootingStar s =
     (let s1 = s\<lparr>ShootingStar.x := ShootingStar.x s + ShootingStar.vx s\<rparr>;
          s2 = s1\<lparr>ShootingStar.y := ShootingStar.y s1 + ShootingStar.vy s1\<rparr>;
          s3 = s2\<lparr>ShootingStar.life := ShootingStar.life s2 - 1\<rparr>
      in s3\<lparr>ShootingStar.opacity := ShootingStar.life s3 / 100\<rparr>)"

definition spliced :: "nat \<Rightarrow> nat \<Rightarrow> ShootingStar \<Rightarrow> bool" where
  "spliced w h s \<longleftrightarrow>
     ShootingStar.life s \<le> 0 \<or> ShootingStar.x s > real w \<or> ShootingStar.y s > real h"

text \<open>
  \<^verbatim>\<open>Array.prototype.forEach\<close> reads the length once, before the first call, and then
  visits the indices \<open>0, 1, ..., len - 1\<close> in turn, calling the callback on the element
  found at the index at that moment and passing over an index that is no longer in the
  array. The callback changes the element in place, or removes it with
  \<^verbatim>\<open>splice(index, 1)\<close>, which moves every later element one index down.
\<close>

function forEach_shootingStar ::
  "nat \<Rightarrow> nat \<Rightarrow> nat \<Rightarrow> nat \<Rightarrow> ShootingStar list \<Rightarrow> ShootingStar list" where
  "forEach_shootingStar w h len k arr =
     (if k < len then
        (if k < length arr then
           (let s = moveShootingStar (arr ! k)
            in if spliced w h s
               then forEach_shootingStar w h len (Suc k) (take k arr @ drop (Suc k) arr)
               else forEach_shootingStar w h len (Suc k) (arr[k := s]))
         else forEach_shootingStar w h len (Suc k) arr)
      else arr)"
  by pat_completeness auto
termination
  by (relation "measure (\<lambda>(w, h, len, k, arr). len - k)") auto

declare forEach_shootingStar.simps [simp del]

text \<open>
  \<^verbatim>\<open>animate\<close>, without the drawing and without the request for the next frame: nebula
  clouds, dust, stars, then \<^verbatim>\<open>createShootingStar()\<close>, then the pass over the shooting
  stars.
\<close>

definition animate :: "galaxy \<Rightarrow> rng \<Rightarrow> galaxy \<times> rng" where
  "animate st g0 =
     (let clouds = map updateNebulaCloud (nebulaClouds st) in
      case updateAllDust (width st) (height st) (cosmicDust st) g0 of (dust, g1) \<Rightarrow>
      let twinkling = map updateStar (stars st) in
      case createShootingStar (width st) (height st) (shootingStars st) g1 of (spawned, g2) \<Rightarrow>
        (st\<lparr>nebulaClouds := clouds, cosmicDust := dust, stars := twinkling,
            shootingStars :=
              forEach_shootingStar (width st) (height st) (length spawned) 0 spawned\<rparr>, g2))"

text \<open>
  The life of the component after mounting: frames, and resize events between them,
  each with the size the window then has. The effect calls \<^verbatim>\<open>animate()\<close> itself once
  and every frame requests the next, so in a run of the component the first event is a
  frame; the statements below hold for every sequence of events. The effect returns
  before mounting anything when the canvas or its context is missing, and nothing is
  said about that case.
\<close>

datatype event = Frame | Resize nat nat

fun step :: "event \<Rightarrow> galaxy \<times> rng \<Rightarrow> galaxy \<times> rng" where
  "step Frame (st, g) = animate st g"
| "step (Resize innerWidth innerHeight) (st, g) = (resizeCanvas innerWidth innerHeight st, g)"

fun run :: "event list \<Rightarrow> galaxy \<times> rng \<Rightarrow> galaxy \<times> rng" where
  "run [] c = c"
| "run (e # es) c = run es (step e c)"

definition session :: "nat \<Rightarrow> nat \<Rightarrow> rng \<Rightarrow> event list \<Rightarrow> galaxy \<times> rng" where
  "session innerWidth innerHeight g events = run events (mount innerWidth innerHeight g)"

subsection \<open>Auxiliary notions for the proofs\<close>

text \<open>
  The pass over the shooting stars, by recursion on the array: a star that is removed
  takes the visit of the star behind it, which is left as it was. It is proved equal to
  \<open>forEach_shootingStar\<close> below.
\<close>

fun sweep :: "nat \<Rightarrow> nat \<Rightarrow> ShootingStar list \<Rightarrow> ShootingStar list" where
  "sweep w h [] = []"
| "sweep w h [s] = (if spliced w h (moveShootingStar s) then [] else [moveShootingStar s])"
| "sweep w h (s # t # rest) =
     (if spliced w h (moveShootingStar s) then t # sweep w h rest
      else moveShootingStar s # sweep w h (t # rest))"

text \<open>
  The frame as the specification words it, with the removal pass before the spawn check;
  it differs from \<open>animate\<close> in that order only.
\<close>

definition animate_removal_first :: "galaxy \<Rightarrow> rng \<Rightarrow> galaxy \<times> rng" where
  "animate_removal_first st g0 =
     (let clouds = map updateNebulaCloud (nebulaClouds st) in
      case updateAllDust (width st) (height st) (cosmicDust st) g0 of (dust, g1) \<Rightarrow>
      let twinkling = map updateStar (stars st);
          kept = forEach_shootingStar (width st) (height st)
                   (length (shootingStars st)) 0 (shootingStars st) in
      case createShootingStar (width st) (height st) kept g1 of (spawned, g2) \<Rightarrow>
        (st\<lparr>nebulaClouds := clouds, cosmicDust := dust, stars := twinkling,
            shootingStars := spawned\<rparr>, g2))"

text \<open>What creation establishes for a star and for a shooting star, and every frame keeps.\<close>

definition star_ok :: "Star \<Rightarrow> bool" where
  "star_ok s \<longleftrightarrow>
     0 \<le> brightness s \<and> brightness s < 1 \<and> 0.02 \<le> twinkleSpeed s \<and> twinkleSpeed s < 0.1"

definition shooting_ok :: "ShootingStar \<Rightarrow> bool" where
  "shooting_ok s \<longleftrightarrow>
     0 \<le> ShootingStar.x s \<and> 0 \<le> ShootingStar.y s \<and>
     4 \<le> ShootingStar.vx s \<and> ShootingStar.vx s < 12 \<and>
     2 \<le> ShootingStar.vy s \<and> ShootingStar.vy s < 6 \<and>
     0 < ShootingStar.life s \<and> ShootingStar.life s < 230"

text \<open>The frames the active shooting stars have left between them, each rounded up.\<close>

definition frames_left :: "ShootingStar list \<Rightarrow> int" where
  "frames_left active = (\<Sum>s\<leftarrow>active. \<lceil>ShootingStar.life s\<rceil>)"

text \<open>The ranges \<^verbatim>\<open>createShootingStar\<close> draws a new star from.\<close>

definition in_spawn_range :: "nat \<Rightarrow> nat \<Rightarrow> ShootingStar \<Rightarrow> bool" where
  "in_spawn_range w h s \<longleftrightarrow>
     0 \<le> ShootingStar.x s \<and> ShootingStar.x s \<le> real w \<and>
     0 \<le> ShootingStar.y s \<and> (0 < h \<longrightarrow> ShootingStar.y s < real h / 2) \<and>
     4 \<le> ShootingStar.vx s \<and> ShootingStar.vx s < 12 \<and>
     2 \<le> ShootingStar.vy s \<and> ShootingStar.vy s < 6 \<and>
     80 \<le> ShootingStar.life s \<and> ShootingStar.life s < 230"

text \<open>What holds of the engine and its random source between any two events.\<close>

definition config_ok :: "galaxy \<times> rng \<Rightarrow> bool" where
  "config_ok c \<longleftrightarrow>
     rng_ok (snd c) \<and>
     length (stars (fst c)) = starCount \<and>
     length (nebulaClouds (fst c)) = nebulaCount \<and>
     list_all star_ok (stars (fst c)) \<and>
     list_all shooting_ok (shootingStars (fst c)) \<and>
     frames_left (shootingStars (fst c)) \<le> 105800"

subsection \<open>Random sources and states to run the engine on\<close>

text \<open>A source that gives the same value at every draw, and the star spawned from it.\<close>

definition steady :: "real \<Rightarrow> rng" where
  "steady c = (\<lambda>n. c)"

definition spawned_at :: "nat \<Rightarrow> nat \<Rightarrow> real \<Rightarrow> ShootingStar" where
  "spawned_at w h c =
     \<lparr>ShootingStar.x = c * real w, ShootingStar.y = c * real h * 0.5,
      ShootingStar.vx = c * 8 + 4, ShootingStar.vy = c * 4 + 2,
      length' = c * 80 + 50, ShootingStar.opacity = 1, ShootingStar.life = c * 150 + 80\<rparr>"

text \<open>
  A source that gives 0.99 at the sixth of every seven draws and 0 otherwise: every star
  and every nebula cloud is created at the origin with a phase of 0.99 of a full turn.
\<close>

definition nebula_rng :: rng where
  "nebula_rng n = (if n mod 7 = 5 then 0.99 else 0)"

text \<open>
  Two shooting stars on an 800 by 600 canvas, both spawned from draws of 0.005, the first
  80 frames ago and the second 30 frames ago, and the engine that holds them.
\<close>

definition fading :: ShootingStar where
  "fading = \<lparr>ShootingStar.x = 327.2, ShootingStar.y = 163.1, ShootingStar.vx = 4.04,
             ShootingStar.vy = 2.02, length' = 50.4, ShootingStar.opacity = 0.0075,
             ShootingStar.life = 0.75\<rparr>"

definition follower :: ShootingStar where
  "follower = \<lparr>ShootingStar.x = 125.2, ShootingStar.y = 62.1, ShootingStar.vx = 4.04,
               ShootingStar.vy = 2.02, length' = 50.4, ShootingStar.opacity = 0.5075,
               ShootingStar.life = 50.75\<rparr>"

definition two_active :: galaxy where
  "two_active = (fst (mount 800 600 (steady (1 / 2))))\<lparr>shootingStars := [fading, follower]\<rparr>"

section \<open>Contact intake function: server/simple-lambda.js\<close>

subsection \<open>Values, events and responses\<close>

text \<open>
  A parsed JSON text. A property that is absent from an object reads as \<^verbatim>\<open>undefined\<close>,
  which is \<open>None\<close> below. An object is the list of its properties; the parser has kept
  one entry for each key.
\<close>

datatype json =
    JNull
  | JBool bool
  | JNumber real
  | JString string
  | JArray "json list"
  | JObject "(string \<times> json) list"

datatype js_error = SyntaxError string | TypeError string | Error string

fun message_of :: "js_error \<Rightarrow> string" where
  "message_of (SyntaxError m) = m"
| "message_of (TypeError m) = m"
| "message_of (Error m) = m"

text \<open>
  \<^verbatim>\<open>body.key\<close> for the keys the handler reads (\<^verbatim>\<open>name\<close>, \<^verbatim>\<open>email\<close>, \<^verbatim>\<open>subject\<close>,
  \<^verbatim>\<open>message\<close>): reading a property of \<^verbatim>\<open>null\<close> raises a type error; strings, numbers,
  booleans and arrays have no property of these names.
\<close>

fun property :: "json \<Rightarrow> string \<Rightarrow> js_error + json option" where
  "property JNull key =
     Inl (TypeError (''Cannot read properties of null (reading '' @ [CHR 0x27] @ key @ [CHR 0x27] @ '')''))"
| "property (JObject kvs) key = Inr (map_of kvs key)"
| "property v key = Inr None"

text \<open>The fields of the Lambda proxy event the handler reads; \<open>None\<close> is an absent body.\<close>

record event_in =
  httpMethod :: string
  path :: string
  body :: "string option"

datatype payload = Text string | JSON_stringify json

record response =
  statusCode :: nat
  headers :: "(string \<times> string) list"
  body :: payload

record submission =
  id' :: int
  name :: "json option"
  email :: "json option"
  subject :: "json option"
  message :: "json option"
  createdAt :: string

record PutCommand =
  TableName :: string
  Item :: submission

text \<open>
  What the handler does not own. The runtime: \<^verbatim>\<open>JSON.parse\<close>, \<^verbatim>\<open>toISOString\<close>, the
  environment variable, and the answer of the managed store to a put, \<open>Some m\<close> when
  \<^verbatim>\<open>send\<close> rejects with an error of message \<open>m\<close>. The world: the readings the clock will
  give, of which each \<^verbatim>\<open>Date.now()\<close> and each \<^verbatim>\<open>new Date()\<close> takes the next, and the
  puts the store has accepted, oldest first.
\<close>

record runtime =
  JSON_parse :: "string \<Rightarrow> js_error + json"
  toISOString :: "int \<Rightarrow> string"
  send_rejects :: "PutCommand \<Rightarrow> string option"
  CONTACTS_TABLE :: "string option"

record world =
  clock :: "nat \<Rightarrow> int"
  accepted :: "PutCommand list"

definition Date_now :: "world \<Rightarrow> int \<times> world" where
  "Date_now w = (clock w 0, w\<lparr>clock := \<lambda>n. clock w (Suc n)\<rparr>)"

definition send :: "runtime \<Rightarrow> PutCommand \<Rightarrow> world \<Rightarrow> (js_error + unit) \<times> world" where
  "send rt cmd w =
     (case send_rejects rt cmd of
        Some m \<Rightarrow> (Inl (Error m), w)
      | None \<Rightarrow> (Inr (), w\<lparr>accepted := accepted w @ [cmd]\<rparr>))"

text \<open>\<^verbatim>\<open>a || b\<close> on strings that may be absent: the empty string is falsy.\<close>

definition or_default :: "string option \<Rightarrow> string \<Rightarrow> string" where
  "or_default a b = (case a of None \<Rightarrow> b | Some s \<Rightarrow> if s = [] then b else s)"

subsection \<open>The handler\<close>

definition cors_headers :: "(string \<times> string) list" where
  "cors_headers =
     [(''Access-Control-Allow-Origin'', ''*''),
      (''Access-Control-Allow-Headers'',
       ''Content-Type,X-Amz-Date,Authorization,X-Api-Key,X-Amz-Security-Token''),
      (''Access-Control-Allow-Methods'', ''GET,POST,PUT,DELETE,OPTIONS'')]"

definition json_headers :: "(string \<times> string) list" where
  "json_headers = cors_headers @ [(''Content-Type'', ''application/json'')]"

text \<open>The \<^verbatim>\<open>catch\<close> block: the caught error's message goes into the body.\<close>

definition caught :: "js_error \<Rightarrow> response" where
  "caught err =
     \<lparr>statusCode = 500, headers = json_headers,
      body = JSON_stringify (JObject [(''message'', JString ''Internal server error''),
                                      (''error'', JString (message_of err))])\<rparr>"

text \<open>
  The contact branch of the \<^verbatim>\<open>try\<close> block, up to the point where it returns or throws.
  The record is built property by property in the order of the literal, so the first
  clock reading is taken before \<^verbatim>\<open>body.name\<close> is read.
\<close>

definition contact :: "runtime \<Rightarrow> event_in \<Rightarrow> world \<Rightarrow> (js_error + response) \<times> world" where
  "contact rt ev w0 =
     (case JSON_parse rt (or_default (event_in.body ev) ''{}'') of
        Inl err \<Rightarrow> (Inl err, w0)
      | Inr parsed \<Rightarrow>
     (case Date_now w0 of (now, w1) \<Rightarrow>
     (case property parsed ''name'' of Inl err \<Rightarrow> (Inl err, w1) | Inr nm \<Rightarrow>
     (case property parsed ''email'' of Inl err \<Rightarrow> (Inl err, w1) | Inr em \<Rightarrow>
     (case property parsed ''subject'' of Inl err \<Rightarrow> (Inl err, w1) | Inr sj \<Rightarrow>
     (case property parsed ''message'' of Inl err \<Rightarrow> (Inl err, w1) | Inr msg \<Rightarrow>
     (case Date_now w1 of (created, w2) \<Rightarrow>
     (let submission = \<lparr>id' = now, name = nm, email = em, subject = sj, message = msg,
                        createdAt = toISOString rt created\<rparr>
      in (case send rt \<lparr>TableName = or_default (CONTACTS_TABLE rt) ''portfolio-contacts'',
                        Item = submission\<rparr> w2 of
            (Inl err, w3) \<Rightarrow> (Inl err, w3)
          | (Inr u, w3) \<Rightarrow>
              (Inr \<lparr>statusCode = 200, headers = json_headers,
                    body = JSON_stringify
                      (JObject [(''message'', JString ''Contact form submitted successfully''),
                                (''id'', JNumber (of_int (id' submission)))])\<rparr>, w3))))))))))"

definition handler :: "runtime \<Rightarrow> event_in \<Rightarrow> world \<Rightarrow> response \<times> world" where
  "handler rt ev w =
     (if httpMethod ev = ''OPTIONS'' then
        (\<lparr>statusCode = 200, headers = cors_headers, body = Text ''''\<rparr>, w)
      else if path ev = ''/health'' \<and> httpMethod ev = ''GET'' then
        (case Date_now w of (now, w') \<Rightarrow>
           (\<lparr>statusCode = 200, headers = json_headers,
             body = JSON_stringify (JObject [(''status'', JString ''ok''),
                                             (''timestamp'', JString (toISOString rt now))])\<rparr>, w'))
      else if path ev = ''/api/contact'' \<and> httpMethod ev = ''POST'' then
        (case contact rt ev w of
           (Inr res, w') \<Rightarrow> (res, w')
         | (Inl err, w') \<Rightarrow> (caught err, w'))
      else
        (\<lparr>statusCode = 404, headers = json_headers,
          body = JSON_stringify (JObject [(''message'', JString ''Not Found'')])\<rparr>, w))"

subsection \<open>The handler listed in the deployment guide\<close>

text \<open>
  The repository's deployment guide prints a second handler under the same file name
  (``server/simple-lambda.js - Production Lambda function''). It routes
  \<^verbatim>\<open>/api/health\<close> instead of \<^verbatim>\<open>/health\<close>, checks the required fields, and keeps the
  caught error out of the response.
\<close>

definition guide_headers :: "(string \<times> string) list" where
  "guide_headers =
     [(''Access-Control-Allow-Origin'', ''*''),
      (''Access-Control-Allow-Headers'', ''Content-Type''),
      (''Access-Control-Allow-Methods'', ''OPTIONS,POST,GET''),
      (''Content-Type'', ''application/json'')]"

text \<open>JavaScript truthiness of a value read from the parsed body.\<close>

fun truthy :: "json option \<Rightarrow> bool" where
  "truthy None = False"
| "truthy (Some JNull) = False"
| "truthy (Some (JBool b)) = b"
| "truthy (Some (JNumber n)) = (n \<noteq> 0)"
| "truthy (Some (JString s)) = (s \<noteq> [])"
| "truthy (Some (JArray vs)) = True"
| "truthy (Some (JObject kvs)) = True"

text \<open>
  The body of the guide's \<^verbatim>\<open>try\<close> block. \<^verbatim>\<open>JSON.parse\<close> is applied to the body as it
  is: an absent body raises, either in the parser or when \<^verbatim>\<open>null\<close> is destructured.
\<close>

definition guide_contact ::
  "runtime \<Rightarrow> event_in \<Rightarrow> world \<Rightarrow> (js_error + response) \<times> world" where
  "guide_contact rt ev w0 =
     (case event_in.body ev of
        None \<Rightarrow> (Inl (TypeError ''Cannot destructure property of null''), w0)
      | Some text \<Rightarrow>
     (case JSON_parse rt text of
        Inl err \<Rightarrow> (Inl err, w0)
      | Inr parsed \<Rightarrow>
     (case property parsed ''name'' of Inl err \<Rightarrow> (Inl err, w0) | Inr nm \<Rightarrow>
     (case property parsed ''email'' of Inl err \<Rightarrow> (Inl err, w0) | Inr em \<Rightarrow>
     (case property parsed ''subject'' of Inl err \<Rightarrow> (Inl err, w0) | Inr sj \<Rightarrow>
     (case property parsed ''message'' of Inl err \<Rightarrow> (Inl err, w0) | Inr msg \<Rightarrow>
     (if \<not> truthy nm \<or> \<not> truthy em \<or> \<not> truthy msg then
        (Inr \<lparr>statusCode = 400, headers = guide_headers,
              body = JSON_stringify (JObject [(''error'', JString ''Missing required fields'')])\<rparr>,
         w0)
      else
     (case Date_now w0 of (now, w1) \<Rightarrow>
     (case Date_now w1 of (created, w2) \<Rightarrow>
     (let submission =
            \<lparr>id' = now, name = nm, email = em,
             subject = (if truthy sj then sj else Some (JString ''No subject'')),
             message = msg, createdAt = toISOString rt created\<rparr>
      in (case send rt \<lparr>TableName = ''portfolio-contact-submissions'', Item = submission\<rparr> w2 of
            (Inl err, w3) \<Rightarrow> (Inl err, w3)
          | (Inr u, w3) \<Rightarrow>
              (Inr \<lparr>statusCode = 200, headers = guide_headers,
                    body = JSON_stringify
                      (JObject [(''message'', JString ''Contact form submitted successfully''),
                                (''id'', JNumber (of_int (id' submission)))])\<rparr>, w3))))))))))))"

definition guide_handler :: "runtime \<Rightarrow> event_in \<Rightarrow> world \<Rightarrow> response \<times> world" where
  "guide_handler rt ev w =
     (if httpMethod ev = ''OPTIONS'' then
        (\<lparr>statusCode = 200, headers = guide_headers, body = Text ''''\<rparr>, w)
      else if httpMethod ev = ''GET'' \<and> path ev = ''/api/health'' then
        (case Date_now w of (now, w') \<Rightarrow>
           (\<lparr>statusCode = 200, headers = guide_headers,
             body = JSON_stringify (JObject [(''status'', JString ''healthy''),
                                             (''timestamp'', JString (toISOString rt now)),
                                             (''environment'', JString ''production'')])\<rparr>, w'))
      else if httpMethod ev = ''POST'' \<and> path ev = ''/api/contact'' then
        (case guide_contact rt ev w of
           (Inr res, w') \<Rightarrow> (res, w')
         | (Inl err, w') \<Rightarrow>
             (\<lparr>statusCode = 500, headers = guide_headers,
               body = JSON_stringify (JObject [(''error'', JString ''Internal server error'')])\<rparr>,
              w'))
      else
        (\<lparr>statusCode = 404, headers = guide_headers,
          body = JSON_stringify (JObject [(''error'', JString ''Not found'')])\<rparr>, w))"

subsection \<open>A runtime and a world to run the handlers in\<close>

text \<open>
  The values of \<^verbatim>\<open>JSON.parse\<close> on the three request bodies used below, and of
  \<^verbatim>\<open>toISOString\<close> on the one instant used, 2026-01-01 00:00:00 UTC.
\<close>

definition example_parse :: "string \<Rightarrow> js_error + json" where
  \<open>example_parse text =
     (if text = ''{"email":"a@b.com","message":"hi"}'' then
        Inr (JObject [(''email'', JString ''a@b.com''), (''message'', JString ''hi'')])
      else if text = ''{"name":"A","email":"a@b.com","message":"hi"}'' then
        Inr (JObject [(''name'', JString ''A''), (''email'', JString ''a@b.com''),
                      (''message'', JString ''hi'')])
      else if text = ''{}'' then Inr (JObject [])
      else Inl (SyntaxError ''Unexpected token in JSON''))\<close>

definition example_iso :: "int \<Rightarrow> string" where
  "example_iso t = (if t = 1767225600000 then ''2026-01-01T00:00:00.000Z'' else ''another instant'')"

definition example_runtime :: runtime where
  "example_runtime =
     \<lparr>JSON_parse = example_parse, toISOString = example_iso,
      send_rejects = (\<lambda>cmd. None), CONTACTS_TABLE = None\<rparr>"

definition store_down :: runtime where
  "store_down =
     example_runtime\<lparr>send_rejects := (\<lambda>cmd. Some ''Requested resource not found'')\<rparr>"

definition example_world :: world where
  "example_world = \<lparr>clock = (\<lambda>n. 1767225600000), accepted = []\<rparr>"

definition post_without_name :: event_in where
  \<open>post_without_name =
     \<lparr>httpMethod = ''POST'', path = ''/api/contact'',
      body = Some ''{"email":"a@b.com","message":"hi"}''\<rparr>\<close>

definition post_complete :: event_in where
  \<open>post_complete =
     \<lparr>httpMethod = ''POST'', path = ''/api/contact'',
      body = Some ''{"name":"A","email":"a@b.com","message":"hi"}''\<rparr>\<close>

definition ticking_world :: world where
  "ticking_world = \<lparr>clock = (\<lambda>n. 1767225600000 + int n), accepted = []\<rparr>"

definition get_health :: event_in where
  "get_health = \<lparr>httpMethod = ''GET'', path = ''/health'', body = None\<rparr>"

definition get_api_health :: event_in where
  "get_api_health = \<lparr>httpMethod = ''GET'', path = ''/api/health'', body = None\<rparr>"

text \<open>Two invocations of the handler with the same event, one after the other.\<close>

definition two_calls :: "runtime \<Rightarrow> event_in \<Rightarrow> world \<Rightarrow> (response \<times> response) \<times> world" where
  "two_calls rt ev w =
     (case handler rt ev w of (r1, w1) \<Rightarrow>
      case handler rt ev w1 of (r2, w2) \<Rightarrow> ((r1, r2), w2))"

section \<open>The particle animation engine: results\<close>

subsection \<open>The random source through creation and frames\<close>

lemma Math_random_ok:
  "rng_ok g \<Longrightarrow> Math_random g = (r, g') \<Longrightarrow> 0 \<le> r \<and> r < 1 \<and> rng_ok g'"
  by (auto simp: rng_ok_def Math_random_def)

lemma createStar_ok:
  assumes "rng_ok g" and "createStar w h g = (s, g')"
  shows "star_ok s \<and> rng_ok g'"
proof -
  from assms(1) have d: "\<And>n. 0 \<le> g n \<and> g n < 1" by (simp add: rng_ok_def)
  from assms(2) have s: "brightness s = g 3" "twinkleSpeed s = g 4 * 0.08 + 0.02"
    and g': "g' = (\<lambda>n. g (n + 7))"
    by (auto simp: createStar_def Math_random_def eval_nat_numeral)
  from d [of 3] d [of 4] s have "star_ok s" by (simp add: star_ok_def)
  moreover from d g' have "rng_ok g'" by (simp add: rng_ok_def)
  ultimately show ?thesis by simp
qed

lemma createNebulaCloud_ok:
  assumes "rng_ok g" and "createNebulaCloud w h g = (c, g')"
  shows "rng_ok g'"
proof -
  from assms(2) have "g' = (\<lambda>n. g (n + 7))"
    by (auto simp: createNebulaCloud_def Math_random_def eval_nat_numeral)
  with assms(1) show ?thesis by (simp add: rng_ok_def)
qed

lemma createCosmicDust_ok:
  assumes "rng_ok g" and "createCosmicDust w h g = (d, g')"
  shows "rng_ok g'"
proof -
  from assms(2) have "g' = (\<lambda>n. g (n + 7))"
    by (auto simp: createCosmicDust_def Math_random_def eval_nat_numeral)
  with assms(1) show ?thesis by (simp add: rng_ok_def)
qed

lemma populate_ok:
  assumes "\<And>g p g'. rng_ok g \<Longrightarrow> create g = (p, g') \<Longrightarrow> P p \<and> rng_ok g'"
  shows "rng_ok g \<Longrightarrow> populate create n g = (ps, g') \<Longrightarrow>
         (\<forall>p \<in> set ps. P p) \<and> rng_ok g' \<and> length ps = n"
proof (induction n arbitrary: g ps g')
  case 0
  then show ?case by simp
next
  case (Suc n)
  obtain p g1 where c: "create g = (p, g1)" by (cases "create g")
  obtain ps1 g2 where r: "populate create n g1 = (ps1, g2)" by (cases "populate create n g1")
  from assms [OF Suc.prems(1) c] have p: "P p" and g1: "rng_ok g1" by simp_all
  from Suc.IH [OF g1 r] Suc.prems(2) c r p show ?case by auto
qed

lemma mount_ok:
  assumes "rng_ok g" and "mount w h g = (st, g')"
  shows "rng_ok g' \<and> (\<forall>s \<in> set (stars st). star_ok s) \<and> length (stars st) = starCount \<and>
         length (nebulaClouds st) = nebulaCount \<and> shootingStars st = [] \<and>
         width st = w \<and> height st = h"
proof -
  obtain ss g1 where a: "populate (createStar w h) starCount g = (ss, g1)"
    by (cases "populate (createStar w h) starCount g")
  obtain ns g2 where b: "populate (createNebulaCloud w h) nebulaCount g1 = (ns, g2)"
    by (cases "populate (createNebulaCloud w h) nebulaCount g1")
  obtain ds g3 where c: "populate (createCosmicDust w h) dustCount g2 = (ds, g3)"
    by (cases "populate (createCosmicDust w h) dustCount g2")
  have A: "(\<forall>s \<in> set ss. star_ok s) \<and> rng_ok g1 \<and> length ss = starCount"
    by (rule populate_ok [where create = "createStar w h", OF _ assms(1) a])
       (rule createStar_ok)
  have B: "(\<forall>s \<in> set ns. True) \<and> rng_ok g2 \<and> length ns = nebulaCount"
    by (rule populate_ok [where create = "createNebulaCloud w h", OF _ _ b])
       (use A createNebulaCloud_ok in auto)
  have C: "(\<forall>s \<in> set ds. True) \<and> rng_ok g3 \<and> length ds = dustCount"
    by (rule populate_ok [where create = "createCosmicDust w h", OF _ _ c])
       (use B createCosmicDust_ok in auto)
  from assms(2) a b c have "st = \<lparr>width = w, height = h, stars = ss, nebulaClouds = ns,
          cosmicDust = ds, shootingStars = []\<rparr>" and "g' = g3"
    by (simp_all add: mount_def)
  with A B C show ?thesis by simp
qed

lemma updateCosmicDust_ok:
  "rng_ok g \<Longrightarrow> updateCosmicDust w h d g = (d', g') \<Longrightarrow> rng_ok g'"
  by (auto simp: updateCosmicDust_def Let_def split: if_splits prod.splits dest: Math_random_ok)

lemma updateAllDust_ok:
  "rng_ok g \<Longrightarrow> updateAllDust w h ds g = (ds', g') \<Longrightarrow> rng_ok g'"
proof (induction ds arbitrary: g ds' g')
  case Nil
  then show ?case by simp
next
  case (Cons d ds)
  obtain d1 g1 where a: "updateCosmicDust w h d g = (d1, g1)"
    by (cases "updateCosmicDust w h d g")
  obtain ds2 g2 where b: "updateAllDust w h ds g1 = (ds2, g2)"
    by (cases "updateAllDust w h ds g1")
  from updateCosmicDust_ok [OF Cons.prems(1) a] have "rng_ok g1" .
  from Cons.IH [OF this b] Cons.prems(2) a b show ?case by simp
qed

lemma createShootingStar_cases:
  assumes "rng_ok g" and "createShootingStar w h active g = (active', g')"
  shows "rng_ok g' \<and>
         (active' = active \<or>
          (\<exists>s. active' = active @ [s] \<and>
             0 \<le> ShootingStar.x s \<and> ShootingStar.x s \<le> real w \<and>
             0 \<le> ShootingStar.y s \<and> ShootingStar.y s \<le> real h / 2 \<and>
             (0 < h \<longrightarrow> ShootingStar.y s < real h / 2) \<and>
             4 \<le> ShootingStar.vx s \<and> ShootingStar.vx s < 12 \<and>
             2 \<le> ShootingStar.vy s \<and> ShootingStar.vy s < 6 \<and>
             80 \<le> ShootingStar.life s \<and> ShootingStar.life s < 230))"
proof -
  from assms(1) have d: "\<And>n. 0 \<le> g n \<and> g n < 1" by (simp add: rng_ok_def)
  show ?thesis
  proof (cases "g 0 < 0.008")
    case False
    with assms(2) have "active' = active" "g' = (\<lambda>n. g (Suc n))"
      by (auto simp: createShootingStar_def Math_random_def)
    with d show ?thesis by (simp add: rng_ok_def)
  next
    case True
    with assms(2) have g': "g' = (\<lambda>n. g (n + 7))" and
      a: "active' = active @ [\<lparr>ShootingStar.x = g 1 * real w,
                       ShootingStar.y = g 2 * real h * 0.5,
                       ShootingStar.vx = g 3 * 8 + 4,
                       ShootingStar.vy = g 4 * 4 + 2,
                       length' = g 5 * 80 + 50,
                       ShootingStar.opacity = 1,
                       ShootingStar.life = g 6 * 150 + 80\<rparr>]"
      by (auto simp: createShootingStar_def Math_random_def eval_nat_numeral)
    have x: "g 1 * real w \<le> real w" using d [of 1] by (simp add: mult_left_le_one_le)
    have y: "g 2 * real h \<le> real h" using d [of 2] by (simp add: mult_left_le_one_le)
    have y': "0 < h \<Longrightarrow> g 2 * real h < real h" using d [of 2] by simp
    from d g' have "rng_ok g'" by (simp add: rng_ok_def)
    moreover have "\<exists>s. active' = active @ [s] \<and>
             0 \<le> ShootingStar.x s \<and> ShootingStar.x s \<le> real w \<and>
             0 \<le> ShootingStar.y s \<and> ShootingStar.y s \<le> real h / 2 \<and>
             (0 < h \<longrightarrow> ShootingStar.y s < real h / 2) \<and>
             4 \<le> ShootingStar.vx s \<and> ShootingStar.vx s < 12 \<and>
             2 \<le> ShootingStar.vy s \<and> ShootingStar.vy s < 6 \<and>
             80 \<le> ShootingStar.life s \<and> ShootingStar.life s < 230"
      unfolding a using d [of 1] d [of 2] d [of 3] d [of 4] d [of 6] x y y'
      by simp
    ultimately show ?thesis by blast
  qed
qed

subsection \<open>The pass over the shooting stars\<close>

lemma sweep_Cons:
  "sweep w h (s # rest) =
     (if spliced w h (moveShootingStar s)
      then (case rest of [] \<Rightarrow> [] | t # rest' \<Rightarrow> t # sweep w h rest')
      else moveShootingStar s # sweep w h rest)"
  by (cases rest) simp_all

lemma forEach_past_end:
  "length arr \<le> k \<Longrightarrow> forEach_shootingStar w h len k arr = arr"
proof (induction "len - k" arbitrary: k)
  case 0
  then show ?case by (subst forEach_shootingStar.simps) simp
next
  case (Suc n)
  from Suc(2) have "n = len - Suc k" by simp
  from Suc(1) [OF this] Suc(3) show ?case
    by (subst forEach_shootingStar.simps) simp
qed

lemma forEach_sweep:
  "length arr \<le> len \<Longrightarrow> k \<le> length arr \<Longrightarrow>
   forEach_shootingStar w h len k arr = take k arr @ sweep w h (drop k arr)"
proof (induction "len - k" arbitrary: k arr)
  case 0
  then have "length arr \<le> k" by simp
  with 0 show ?case by (simp add: forEach_past_end)
next
  case (Suc n)
  from Suc(2) have n: "n = len - Suc k" and kl: "k < len" by simp_all
  show ?case
  proof (cases "k < length arr")
    case False
    with Suc.prems have "length arr \<le> k" by simp
    with Suc.prems show ?thesis by (simp add: forEach_past_end)
  next
    case True
    then have d: "drop k arr = arr ! k # drop (Suc k) arr"
      by (simp add: Cons_nth_drop_Suc)
    let ?s = "moveShootingStar (arr ! k)"
    show ?thesis
    proof (cases "spliced w h ?s")
      case sp: True
      let ?arr' = "take k arr @ drop (Suc k) arr"
      have step: "forEach_shootingStar w h len k arr =
                  forEach_shootingStar w h len (Suc k) ?arr'"
        using kl True sp by (subst forEach_shootingStar.simps) (simp add: Let_def)
      show ?thesis
      proof (cases "drop (Suc k) arr")
        case Nil
        then have "length ?arr' \<le> Suc k" by simp
        then have "forEach_shootingStar w h len (Suc k) ?arr' = ?arr'"
          by (rule forEach_past_end)
        with step Nil d sp show ?thesis by (simp add: sweep_Cons)
      next
        case (Cons t rest')
        have l: "length ?arr' \<le> len" using Suc.prems by simp
        have k': "Suc k \<le> length ?arr'" using True Cons by simp
        have tk: "take (Suc k) ?arr' = take k arr @ [t]"
          using True Cons by (simp add: take_Suc_conv_app_nth nth_append)
        have dk: "drop (Suc k) ?arr' = rest'"
          using True Cons by simp
        from Suc(1) [OF n l k'] step tk dk d sp Cons show ?thesis
          by (simp add: sweep_Cons)
      qed
    next
      case ns: False
      let ?arr' = "arr[k := ?s]"
      have step: "forEach_shootingStar w h len k arr =
                  forEach_shootingStar w h len (Suc k) ?arr'"
        using kl True ns by (subst forEach_shootingStar.simps) (simp add: Let_def)
      have l: "length ?arr' \<le> len" using Suc.prems by simp
      have k': "Suc k \<le> length ?arr'" using True by simp
      have tk: "take (Suc k) ?arr' = take k arr @ [?s]"
        using True by (simp add: take_Suc_conv_app_nth)
      have dk: "drop (Suc k) ?arr' = drop (Suc k) arr"
        by simp
      from Suc(1) [OF n l k'] step tk dk d ns show ?thesis
        by (simp add: sweep_Cons)
    qed
  qed
qed

lemma forEach_is_sweep:
  "forEach_shootingStar w h (length arr) 0 arr = sweep w h arr"
  by (simp add: forEach_sweep)

subsection \<open>What every frame keeps\<close>

lemma moveShootingStar_simps:
  "ShootingStar.x (moveShootingStar s) = ShootingStar.x s + ShootingStar.vx s"
  "ShootingStar.y (moveShootingStar s) = ShootingStar.y s + ShootingStar.vy s"
  "ShootingStar.vx (moveShootingStar s) = ShootingStar.vx s"
  "ShootingStar.vy (moveShootingStar s) = ShootingStar.vy s"
  "length' (moveShootingStar s) = length' s"
  "ShootingStar.life (moveShootingStar s) = ShootingStar.life s - 1"
  "ShootingStar.opacity (moveShootingStar s) = (ShootingStar.life s - 1) / 100"
  by (simp_all add: moveShootingStar_def Let_def)

lemma shooting_ok_move:
  "shooting_ok s \<Longrightarrow> \<not> spliced w h (moveShootingStar s) \<Longrightarrow> shooting_ok (moveShootingStar s)"
  by (simp add: shooting_ok_def spliced_def moveShootingStar_simps)

lemma sweep_set:
  "s' \<in> set (sweep w h arr) \<Longrightarrow>
   s' \<in> set arr \<or> (\<exists>s \<in> set arr. s' = moveShootingStar s \<and> \<not> spliced w h s')"
  by (induction w h arr rule: sweep.induct) (auto split: if_splits)

lemma sweep_ok:
  assumes "list_all shooting_ok arr"
  shows "list_all shooting_ok (sweep w h arr)"
  unfolding list_all_iff
proof
  fix s' assume "s' \<in> set (sweep w h arr)"
  from sweep_set [OF this] assms show "shooting_ok s'"
    by (auto simp: list_all_iff shooting_ok_move)
qed

lemma sweep_length: "length (sweep w h arr) \<le> length arr"
  by (induction w h arr rule: sweep.induct) auto

lemma ceiling_life:
  "shooting_ok s \<Longrightarrow> 1 \<le> \<lceil>ShootingStar.life s\<rceil> \<and> \<lceil>ShootingStar.life s\<rceil> \<le> 230"
  by (simp add: shooting_ok_def ceiling_le_iff less_ceiling_iff int_one_le_iff_zero_less)

lemma ceiling_life_move:
  "\<lceil>ShootingStar.life (moveShootingStar s)\<rceil> = \<lceil>ShootingStar.life s\<rceil> - 1"
  by (simp add: moveShootingStar_simps)

lemma frames_left_simps:
  "frames_left [] = 0"
  "frames_left (s # arr) = \<lceil>ShootingStar.life s\<rceil> + frames_left arr"
  "frames_left (arr @ [s]) = frames_left arr + \<lceil>ShootingStar.life s\<rceil>"
  by (simp_all add: frames_left_def)

lemma sweep_arith_removed:
  fixes A B n cs ct :: int
  shows "2 * A + n \<le> 2 * B \<Longrightarrow> 1 \<le> cs \<Longrightarrow> 2 * (ct + A) + (n + 2) \<le> 2 * (cs + (ct + B))"
  by simp

lemma sweep_arith_kept:
  fixes A B n cs :: int
  shows "2 * A + n \<le> 2 * B \<Longrightarrow> 2 * (cs - 1 + A) + (n + 1) \<le> 2 * (cs + B)"
  by simp

lemma frames_left_arith:
  fixes A n cs :: int
  shows "n \<le> A \<Longrightarrow> A \<le> 230 * n \<Longrightarrow> 1 \<le> cs \<Longrightarrow> cs \<le> 230 \<Longrightarrow>
         n + 1 \<le> cs + A \<and> cs + A \<le> 230 * (n + 1)"
  by simp

lemma sweep_frames_left:
  "list_all shooting_ok arr \<Longrightarrow>
   2 * frames_left (sweep w h arr) + int (length arr) \<le> 2 * frames_left arr"
proof (induction w h arr rule: sweep.induct)
  case (1 w h)
  then show ?case by (simp add: frames_left_simps)
next
  case (2 w h s)
  then have "shooting_ok s" by simp
  from ceiling_life [OF this] have c: "1 \<le> \<lceil>ShootingStar.life s\<rceil>" ..
  show ?case
  proof (cases "spliced w h (moveShootingStar s)")
    case True
    have "frames_left (sweep w h [s]) = 0" "frames_left [s] = \<lceil>ShootingStar.life s\<rceil>"
      using True by (simp_all add: frames_left_simps)
    with c show ?thesis by simp linarith
  next
    case False
    have "frames_left (sweep w h [s]) = \<lceil>ShootingStar.life s\<rceil> - 1"
      "frames_left [s] = \<lceil>ShootingStar.life s\<rceil>"
      using False by (simp_all add: frames_left_simps ceiling_life_move)
    then show ?thesis by simp
  qed
next
  case (3 w h s t rest)
  then have ok: "shooting_ok s" "list_all shooting_ok rest" "list_all shooting_ok (t # rest)"
    by simp_all
  from ceiling_life [OF ok(1)] have c: "1 \<le> \<lceil>ShootingStar.life s\<rceil>" ..
  show ?case
  proof (cases "spliced w h (moveShootingStar s)")
    case True
    from 3(1) [OF True ok(2)]
    have ih: "2 * frames_left (sweep w h rest) + int (length rest) \<le> 2 * frames_left rest" .
    have e: "frames_left (sweep w h (s # t # rest)) =
             \<lceil>ShootingStar.life t\<rceil> + frames_left (sweep w h rest)"
      "frames_left (s # t # rest) =
             \<lceil>ShootingStar.life s\<rceil> + (\<lceil>ShootingStar.life t\<rceil> + frames_left rest)"
      "int (length (s # t # rest)) = int (length rest) + 2"
      using True by (simp_all add: frames_left_simps)
    show ?thesis unfolding e using ih c by (rule sweep_arith_removed)
  next
    case False
    from 3(2) [OF False ok(3)]
    have ih: "2 * frames_left (sweep w h (t # rest)) + int (length (t # rest))
              \<le> 2 * frames_left (t # rest)" .
    have e: "frames_left (sweep w h (s # t # rest)) =
             \<lceil>ShootingStar.life s\<rceil> - 1 + frames_left (sweep w h (t # rest))"
      "frames_left (s # t # rest) = \<lceil>ShootingStar.life s\<rceil> + frames_left (t # rest)"
      "int (length (s # t # rest)) = int (length (t # rest)) + 1"
      using False by (simp_all add: frames_left_simps ceiling_life_move)
    show ?thesis unfolding e using ih by (rule sweep_arith_kept)
  qed
qed

lemma frames_left_bounds:
  "list_all shooting_ok arr \<Longrightarrow>
   int (length arr) \<le> frames_left arr \<and> frames_left arr \<le> 230 * int (length arr)"
proof (induction arr)
  case Nil
  then show ?case by (simp add: frames_left_simps)
next
  case (Cons s arr)
  then have ih: "int (length arr) \<le> frames_left arr" "frames_left arr \<le> 230 * int (length arr)"
    and ok: "shooting_ok s"
    by simp_all
  from ceiling_life [OF ok]
  have c: "1 \<le> \<lceil>ShootingStar.life s\<rceil>" "\<lceil>ShootingStar.life s\<rceil> \<le> 230" by blast+
  have e: "frames_left (s # arr) = \<lceil>ShootingStar.life s\<rceil> + frames_left arr"
    "int (length (s # arr)) = int (length arr) + 1"
    by (simp_all add: frames_left_simps)
  show ?case unfolding e using ih c by (rule frames_left_arith)
qed

lemma animate_unfold:
  assumes "animate st g = (st', g')"
  obtains dust g1 spawned where
    "updateAllDust (width st) (height st) (cosmicDust st) g = (dust, g1)"
    "createShootingStar (width st) (height st) (shootingStars st) g1 = (spawned, g')"
    "st' = st\<lparr>nebulaClouds := map updateNebulaCloud (nebulaClouds st), cosmicDust := dust,
              stars := map updateStar (stars st),
              shootingStars := sweep (width st) (height st) spawned\<rparr>"
  using assms
  by (auto simp: animate_def Let_def forEach_is_sweep split: prod.splits)

lemma star_ok_update: "star_ok s \<Longrightarrow> star_ok (updateStar s)"
  by (simp add: star_ok_def updateStar_def)

lemma spawn_frames_left:
  assumes "rng_ok g1" and "createShootingStar w h active g1 = (spawned, g')"
    and "list_all shooting_ok active"
  shows "rng_ok g' \<and> list_all shooting_ok spawned \<and>
         frames_left spawned \<le> frames_left active + 230 \<and>
         length active \<le> length spawned \<and> length spawned \<le> Suc (length active)"
proof -
  from createShootingStar_cases [OF assms(1,2)]
  have g': "rng_ok g'" and
    c: "spawned = active \<or>
          (\<exists>s. spawned = active @ [s] \<and>
             0 \<le> ShootingStar.x s \<and> 0 \<le> ShootingStar.y s \<and>
             4 \<le> ShootingStar.vx s \<and> ShootingStar.vx s < 12 \<and>
             2 \<le> ShootingStar.vy s \<and> ShootingStar.vy s < 6 \<and>
             80 \<le> ShootingStar.life s \<and> ShootingStar.life s < 230)"
    by auto
  from c show ?thesis
  proof
    assume "spawned = active"
    with g' assms(3) show ?thesis by simp
  next
    assume "\<exists>s. spawned = active @ [s] \<and>
             0 \<le> ShootingStar.x s \<and> 0 \<le> ShootingStar.y s \<and>
             4 \<le> ShootingStar.vx s \<and> ShootingStar.vx s < 12 \<and>
             2 \<le> ShootingStar.vy s \<and> ShootingStar.vy s < 6 \<and>
             80 \<le> ShootingStar.life s \<and> ShootingStar.life s < 230"
    then obtain s where s: "spawned = active @ [s]" and ok: "shooting_ok s"
      by (auto simp: shooting_ok_def)
    from ceiling_life [OF ok] s g' assms(3) ok show ?thesis
      by (simp add: frames_left_simps)
  qed
qed

lemma animate_ok:
  assumes "config_ok (st, g)"
  shows "config_ok (animate st g)"
proof -
  obtain st' g' where a: "animate st g = (st', g')" by (cases "animate st g")
  from a obtain dust g1 spawned where
    d: "updateAllDust (width st) (height st) (cosmicDust st) g = (dust, g1)" and
    c: "createShootingStar (width st) (height st) (shootingStars st) g1 = (spawned, g')" and
    st': "st' = st\<lparr>nebulaClouds := map updateNebulaCloud (nebulaClouds st), cosmicDust := dust,
              stars := map updateStar (stars st),
              shootingStars := sweep (width st) (height st) spawned\<rparr>"
    by (rule animate_unfold)
  from assms have g: "rng_ok g" and ok: "list_all shooting_ok (shootingStars st)"
    and fl: "frames_left (shootingStars st) \<le> 105800"
    by (simp_all add: config_ok_def)
  from updateAllDust_ok [OF g d] have g1: "rng_ok g1" .
  from spawn_frames_left [OF g1 c ok]
  have g': "rng_ok g'" and sok: "list_all shooting_ok spawned"
    and sfl: "frames_left spawned \<le> frames_left (shootingStars st) + 230"
    by simp_all
  let ?swept = "sweep (width st) (height st) spawned"
  have wok: "list_all shooting_ok ?swept" using sok by (rule sweep_ok)
  have "frames_left ?swept \<le> 105800"
  proof (cases "460 \<le> length spawned")
    case True
    with sweep_frames_left [OF sok, of "width st" "height st"] sfl fl show ?thesis by simp
  next
    case False
    then have "230 * int (length spawned) \<le> 105800" by simp
    with sweep_frames_left [OF sok, of "width st" "height st"] frames_left_bounds [OF sok]
    show ?thesis by simp
  qed
  with assms g' wok show ?thesis
    by (simp add: a st' config_ok_def list_all_iff star_ok_update)
qed

lemma step_ok: "config_ok c \<Longrightarrow> config_ok (step e c)"
proof (cases c)
  case (Pair st g)
  assume "config_ok c"
  with Pair show ?thesis
    by (cases e) (simp_all add: animate_ok, simp add: config_ok_def resizeCanvas_def)
qed

lemma run_ok: "config_ok c \<Longrightarrow> config_ok (run es c)"
  by (induction es arbitrary: c) (simp_all add: step_ok)

lemma mount_config_ok: "rng_ok g \<Longrightarrow> config_ok (mount w h g)"
  using mount_ok [of g w h "fst (mount w h g)" "snd (mount w h g)"]
  by (simp add: config_ok_def list_all_iff frames_left_simps)

lemma session_ok: "rng_ok g \<Longrightarrow> config_ok (session w h g es)"
  by (simp add: session_def run_ok mount_config_ok)

lemma run_snoc: "run (es @ [e]) c = step e (run es c)"
  by (induction es arbitrary: c) simp_all

lemma session_snoc: "session w h g (es @ [e]) = step e (session w h g es)"
  by (simp add: session_def run_snoc)

lemma shooting_stars_bounded:
  "rng_ok g \<Longrightarrow> length (shootingStars (fst (session w h g es))) \<le> 105800"
  using session_ok [of g w h es]
    frames_left_bounds [of "shootingStars (fst (session w h g es))"]
  by (simp add: config_ok_def)

subsection \<open>Running on a steady source\<close>

lemma Math_random_const: "Math_random (\<lambda>n. c) = (c, \<lambda>n. c)"
  by (simp add: Math_random_def)

lemma populate_const:
  "create (\<lambda>n. c) = (p, \<lambda>n. c) \<Longrightarrow> populate create k (\<lambda>n. c) = (replicate k p, \<lambda>n. c)"
  by (induction k) simp_all

lemma createStar_const:
  "createStar w h (\<lambda>n. c) =
     (\<lparr>Star.x = c * real w, Star.y = c * real h, Star.size' = c * 3 + 0.5, brightness = c,
       twinkleSpeed = c * 0.08 + 0.02, twinklePhase = c * pi * 2,
       Star.color = pick starColors c\<rparr>, \<lambda>n. c)"
  by (simp add: createStar_def Math_random_const)

lemma createNebulaCloud_const: "snd (createNebulaCloud w h (\<lambda>n. c)) = (\<lambda>n. c)"
  by (simp add: createNebulaCloud_def Math_random_const)

lemma createCosmicDust_const: "snd (createCosmicDust w h (\<lambda>n. c)) = (\<lambda>n. c)"
  by (simp add: createCosmicDust_def Math_random_const)

lemma populate_const_snd:
  "snd (create (\<lambda>n. c)) = (\<lambda>n. c) \<Longrightarrow> snd (populate create k (\<lambda>n. c)) = (\<lambda>n. c)"
  by (induction k) (simp_all add: case_prod_beta)

lemma populate_stars_const:
  "populate (createStar w h) k (\<lambda>n. c) = (replicate k (fst (createStar w h (\<lambda>n. c))), \<lambda>n. c)"
  by (rule populate_const) (simp add: createStar_const)

lemma step_Frame: "step Frame c = animate (fst c) (snd c)"
  by (cases c) simp

lemma step_Resize: "step (Resize a b) c = (resizeCanvas a b (fst c), snd c)"
  by (cases c) simp

lemma mount_const:
  "snd (mount w h (\<lambda>n. c)) = (\<lambda>n. c)"
  "width (fst (mount w h (\<lambda>n. c))) = w"
  "height (fst (mount w h (\<lambda>n. c))) = h"
  "shootingStars (fst (mount w h (\<lambda>n. c))) = []"
  "stars (fst (mount w h (\<lambda>n. c))) = replicate starCount (fst (createStar w h (\<lambda>n. c)))"
  by (simp_all add: mount_def case_prod_beta populate_const_snd createNebulaCloud_const
      createCosmicDust_const populate_stars_const)

lemma updateCosmicDust_const: "snd (updateCosmicDust w h d (\<lambda>n. c)) = (\<lambda>n. c)"
  by (simp add: updateCosmicDust_def Let_def Math_random_const)

lemma updateAllDust_const: "snd (updateAllDust w h ds (\<lambda>n. c)) = (\<lambda>n. c)"
  by (induction ds) (simp_all add: case_prod_beta updateCosmicDust_const)

lemma createShootingStar_const:
  "createShootingStar w h active (\<lambda>n. c) =
     (if c < 0.008 then active @ [spawned_at w h c] else active, \<lambda>n. c)"
  by (simp add: createShootingStar_def Math_random_const spawned_at_def)

lemma animate_const:
  "snd (animate st (\<lambda>n. c)) = (\<lambda>n. c)"
  "width (fst (animate st (\<lambda>n. c))) = width st"
  "height (fst (animate st (\<lambda>n. c))) = height st"
  "shootingStars (fst (animate st (\<lambda>n. c))) =
     sweep (width st) (height st)
       (if c < 0.008 then shootingStars st @ [spawned_at (width st) (height st) c]
        else shootingStars st)"
  using updateAllDust_const [of "width st" "height st" "cosmicDust st" c]
  by (simp_all add: animate_def Let_def case_prod_beta createShootingStar_const
      forEach_is_sweep)

lemma animate_removal_first_const:
  "shootingStars (fst (animate_removal_first st (\<lambda>n. c))) =
     (if c < 0.008
      then sweep (width st) (height st) (shootingStars st) @ [spawned_at (width st) (height st) c]
      else sweep (width st) (height st) (shootingStars st))"
  using updateAllDust_const [of "width st" "height st" "cosmicDust st" c]
  by (simp add: animate_removal_first_def Let_def case_prod_beta createShootingStar_const
      forEach_is_sweep)

lemma first_frame:
  "shootingStars (fst (session 800 600 (\<lambda>n. 0.005) [Frame])) =
     [\<lparr>ShootingStar.x = 8.04, ShootingStar.y = 3.52, ShootingStar.vx = 4.04,
       ShootingStar.vy = 2.02, length' = 50.4, ShootingStar.opacity = 0.7975,
       ShootingStar.life = 79.75\<rparr>]"
  by (simp add: session_def step_Frame mount_const animate_const spawned_at_def
      moveShootingStar_def Let_def spliced_def)

subsection \<open>Stars\<close>

lemma twinkle_range: "0 \<le> twinkle s \<and> twinkle s \<le> 1"
proof -
  have "- 1 \<le> sin (twinklePhase s)" "sin (twinklePhase s) \<le> 1" by simp_all
  then show ?thesis unfolding twinkle_def by linarith
qed

lemma currentBrightness_range:
  assumes "0 \<le> brightness s"
  shows "0 \<le> currentBrightness s \<and> currentBrightness s \<le> brightness s"
proof -
  from twinkle_range [of s] have t: "0 \<le> twinkle s" "twinkle s \<le> 1" by simp_all
  from assms t(1) have "0 \<le> brightness s * twinkle s" by simp
  moreover from assms t(2) have "brightness s * twinkle s \<le> brightness s * 1"
    by (rule mult_left_mono [rotated])
  ultimately show ?thesis by (simp add: currentBrightness_def)
qed

lemma currentBrightness_periodic:
  "currentBrightness (s\<lparr>twinklePhase := twinklePhase s + 2 * pi\<rparr>) = currentBrightness s"
  by (simp add: currentBrightness_def twinkle_def)

lemma updateStar_simps:
  "brightness (updateStar s) = brightness s"
  "twinkleSpeed (updateStar s) = twinkleSpeed s"
  "twinklePhase (updateStar s) = twinklePhase s + twinkleSpeed s"
  "Star.x (updateStar s) = Star.x s"
  "Star.y (updateStar s) = Star.y s"
  by (simp_all add: updateStar_def)

lemma session_frame_stars:
  "stars (fst (session w h g (es @ [Frame]))) = map updateStar (stars (fst (session w h g es)))"
  by (simp add: session_snoc step_Frame animate_def Let_def case_prod_beta)

text \<open>
  C8. After any events, the next frame draws every star with its base brightness times
  \<open>0.5 + 0.5 * sin p\<close>, where \<open>p\<close> is the star's phase as the frame has just advanced
  it; this lies between 0 and the base brightness, which the frame leaves as it was. The
  frame advances the phase by the star's twinkle speed, which is positive, so the phase
  grows from frame to frame; the phase is never reduced, and the brightness drawn depends
  on it modulo \<open>2 * pi\<close> only. Resize events between the frames change none of this.
\<close>

theorem C8_star_brightness_and_phase:
  assumes "rng_ok g" and "i < starCount"
  shows "let before = stars (fst (session w h g es)) ! i;
             after = stars (fst (session w h g (es @ [Frame]))) ! i
         in length (stars (fst (session w h g (es @ [Frame])))) = starCount \<and>
            brightness after = brightness before \<and>
            currentBrightness after =
              brightness before *
                (0.5 + 0.5 * sin (twinklePhase before + twinkleSpeed before)) \<and>
            0 \<le> currentBrightness after \<and> currentBrightness after \<le> brightness after \<and>
            twinklePhase after = twinklePhase before + twinkleSpeed before \<and>
            twinklePhase before < twinklePhase after \<and>
            currentBrightness (after\<lparr>twinklePhase := twinklePhase after + 2 * pi\<rparr>) =
              currentBrightness after"
proof -
  let ?ss = "stars (fst (session w h g es))"
  from session_ok [OF assms(1), of w h es]
  have len: "length ?ss = starCount" and ok: "list_all star_ok ?ss"
    by (simp_all add: config_ok_def)
  from assms(2) len ok have s: "star_ok (?ss ! i)" by (simp add: list_all_length)
  have a: "stars (fst (session w h g (es @ [Frame]))) ! i = updateStar (?ss ! i)"
    using assms(2) len by (simp add: session_frame_stars)
  from s have b: "0 \<le> brightness (updateStar (?ss ! i))" "0 < twinkleSpeed (?ss ! i)"
    by (simp_all add: star_ok_def updateStar_simps)
  have l: "length (stars (fst (session w h g (es @ [Frame])))) = starCount"
    using len by (simp add: session_frame_stars)
  have d: "currentBrightness (updateStar (?ss ! i)) =
           brightness (?ss ! i) *
             (0.5 + 0.5 * sin (twinklePhase (?ss ! i) + twinkleSpeed (?ss ! i)))"
    by (simp add: currentBrightness_def twinkle_def updateStar_simps)
  from currentBrightness_range [OF b(1)] b(2) l d
    currentBrightness_periodic [of "updateStar (?ss ! i)"]
  show ?thesis
    unfolding Let_def a by (simp add: updateStar_simps)
qed

lemma sin_small: "0 < sin (3 / 50 :: real) \<and> sin (3 / 50 :: real) < 1"
proof
  have "(3 / 50 :: real) < pi" using pi_ge_two by simp
  then show "0 < sin (3 / 50 :: real)" by (simp add: sin_gt_zero)
  have "sin (3 / 50 :: real) \<le> 3 / 50" by (rule sin_x_le_x) simp
  then show "sin (3 / 50 :: real) < 1" by simp
qed

theorem C8_star_brightness_and_phase_witness:
  "rng_ok (steady (1 / 2)) \<and> 0 < starCount \<and>
   (let before = stars (fst (session 800 600 (steady (1 / 2)) [])) ! 0;
        after = stars (fst (session 800 600 (steady (1 / 2)) ([] @ [Frame]))) ! 0
    in length (stars (fst (session 800 600 (steady (1 / 2)) ([] @ [Frame])))) = starCount \<and>
       brightness after = brightness before \<and>
       currentBrightness after =
         brightness before * (0.5 + 0.5 * sin (twinklePhase before + twinkleSpeed before)) \<and>
       0 \<le> currentBrightness after \<and> currentBrightness after \<le> brightness after \<and>
       twinklePhase after = twinklePhase before + twinkleSpeed before \<and>
       twinklePhase before < twinklePhase after \<and>
       currentBrightness (after\<lparr>twinklePhase := twinklePhase after + 2 * pi\<rparr>) =
         currentBrightness after) \<and>
   brightness (stars (fst (session 800 600 (steady (1 / 2)) [])) ! 0) = 1 / 2 \<and>
   twinkleSpeed (stars (fst (session 800 600 (steady (1 / 2)) [])) ! 0) = 3 / 50 \<and>
   twinklePhase (stars (fst (session 800 600 (steady (1 / 2)) [])) ! 0) = pi \<and>
   twinklePhase (stars (fst (session 800 600 (steady (1 / 2)) [Frame])) ! 0) = pi + 3 / 50 \<and>
   currentBrightness (stars (fst (session 800 600 (steady (1 / 2)) [Frame])) ! 0) =
     (1 - sin (3 / 50)) / 4 \<and>
   0 < currentBrightness (stars (fst (session 800 600 (steady (1 / 2)) [Frame])) ! 0) \<and>
   currentBrightness (stars (fst (session 800 600 (steady (1 / 2)) [Frame])) ! 0) < 1 / 4"
proof -
  have r: "rng_ok (steady (1 / 2))" by (simp add: rng_ok_def steady_def)
  have c: "0 < starCount" by (simp add: starCount_def)
  have v: "stars (fst (session 800 600 (steady (1 / 2)) [])) ! 0 =
           fst (createStar 800 600 (\<lambda>n. 1 / 2))"
    using c by (simp add: session_def steady_def mount_const)
  have v': "stars (fst (session 800 600 (steady (1 / 2)) [Frame])) ! 0 =
           updateStar (fst (createStar 800 600 (\<lambda>n. 1 / 2)))"
    using c session_frame_stars [of 800 600 "steady (1 / 2)" "[]"]
    by (simp add: session_def steady_def mount_const)
  have f: "brightness (fst (createStar 800 600 (\<lambda>n. 1 / 2))) = 1 / 2"
    "twinkleSpeed (fst (createStar 800 600 (\<lambda>n. 1 / 2))) = 3 / 50"
    "twinklePhase (fst (createStar 800 600 (\<lambda>n. 1 / 2))) = pi"
    by (simp_all add: createStar_const)
  note t = C8_star_brightness_and_phase [OF r c, of 800 600 "[]"]
  from t have e: "currentBrightness (stars (fst (session 800 600 (steady (1 / 2)) [Frame])) ! 0) =
     (1 - sin (3 / 50)) / 4"
    by (simp add: Let_def v v' f)
  from t r c e sin_small show ?thesis
    by (simp add: v v' f updateStar_simps)
qed

subsection \<open>Resizing\<close>

text \<open>
  C3, as amended. A resize event gives the canvas the new width and height and changes
  nothing else: the stars, the nebula clouds, the dust and the shooting stars are what
  they were, and no draw is taken from the random source. No population is regenerated
  and no position is brought inside the new bounds.
\<close>

theorem C3_resize_keeps_populations:
  "let c = session w h g es; c' = session w h g (es @ [Resize w' h'])
   in width (fst c') = w' \<and> height (fst c') = h' \<and>
      stars (fst c') = stars (fst c) \<and>
      nebulaClouds (fst c') = nebulaClouds (fst c) \<and>
      cosmicDust (fst c') = cosmicDust (fst c) \<and>
      shootingStars (fst c') = shootingStars (fst c) \<and>
      snd c' = snd c"
  by (simp add: Let_def session_snoc step_Resize resizeCanvas_def)

text \<open>
  The claim as it stands fails: the engine is mounted on an 800 by 600 window with all
  draws 1/2, which puts every star at (400, 300); the first frame is drawn, and the
  window shrinks to 300 by 200. The first star is still at 400, right of the canvas.
\<close>

theorem C3_star_left_outside:
  "width (fst (session 800 600 (steady (1 / 2)) [Frame, Resize 300 200])) = 300 \<and>
   Star.x (stars (fst (session 800 600 (steady (1 / 2)) [Frame, Resize 300 200])) ! 0) = 400"
proof -
  have e: "session 800 600 (steady (1 / 2)) [Frame, Resize 300 200] =
           step (Resize 300 200) (session 800 600 (steady (1 / 2)) ([] @ [Frame]))"
    using session_snoc [of 800 600 "steady (1 / 2)" "[Frame]" "Resize 300 200"] by simp
  have s: "stars (fst (session 800 600 (steady (1 / 2)) [])) ! 0 =
           fst (createStar 800 600 (\<lambda>n. 1 / 2))"
    by (simp add: session_def steady_def mount_const starCount_def)
  have l: "0 < length (stars (fst (session 800 600 (steady (1 / 2)) [])))"
    by (simp add: session_def steady_def mount_const starCount_def)
  show ?thesis
    unfolding e using s l session_frame_stars [of 800 600 "steady (1 / 2)" "[]"]
    by (simp add: step_Resize resizeCanvas_def updateStar_simps createStar_const)
qed

subsection \<open>Shooting stars\<close>

text \<open>
  Whenever the pass removes a star, the star behind it comes out of the frame as it
  went in.
\<close>

lemma passed_over_after_removal:
  assumes "spliced w h (moveShootingStar a)"
  shows "forEach_shootingStar w h (length (a # b # rest)) 0 (a # b # rest) =
         b # forEach_shootingStar w h (length rest) 0 rest"
  using assms by (simp only: forEach_is_sweep) simp

text \<open>
  C5. Every active shooting star is to lose one unit of life on each frame until it is
  removed. The callback removes a star with \<^verbatim>\<open>splice\<close> while \<^verbatim>\<open>forEach\<close> walks the
  array, so the star behind a removed one drops into the index just visited and is
  passed over. In the frame below no star is spawned, \<open>fading\<close> expires and is removed,
  and \<open>follower\<close> comes out as it went in, its life still 50.75.
\<close>

theorem C5_follower_not_advanced:
  "shootingStars (fst (animate two_active (steady (1 / 2)))) = [follower]"
  by (simp add: two_active_def steady_def animate_const mount_const fading_def follower_def
      moveShootingStar_def Let_def spliced_def)

text \<open>
  C6, as amended. On each frame the spawn check runs first, and the pass that moves and
  removes shooting stars runs after it, over the array as the check has left it: the
  array of the frame before, with the star just spawned, if any, at its end. The check
  adds at most one star and the pass adds none; removal happens on every frame, and the
  active set stays bounded: with draws between 0 and 1 it never holds more than 105800
  stars.
\<close>

theorem C6_spawn_then_sweep:
  assumes "rng_ok g"
  shows "let c = session w h g es; st = fst c;
             g1 = snd (updateAllDust (width st) (height st) (cosmicDust st) (snd c));
             spawned = fst (createShootingStar (width st) (height st) (shootingStars st) g1);
             st' = fst (session w h g (es @ [Frame]))
         in (spawned = shootingStars st \<or> (\<exists>s. spawned = shootingStars st @ [s])) \<and>
            shootingStars st' =
              forEach_shootingStar (width st) (height st) (length spawned) 0 spawned \<and>
            length (shootingStars st) \<le> length spawned \<and>
            length spawned \<le> length (shootingStars st) + 1 \<and>
            length (shootingStars st') \<le> length spawned \<and>
            length (shootingStars st') \<le> 105800"
proof -
  obtain st g0 where c: "session w h g es = (st, g0)" by (cases "session w h g es")
  obtain dust g1 where d: "updateAllDust (width st) (height st) (cosmicDust st) g0 = (dust, g1)"
    by (cases "updateAllDust (width st) (height st) (cosmicDust st) g0")
  obtain spawned g2 where
    s: "createShootingStar (width st) (height st) (shootingStars st) g1 = (spawned, g2)"
    by (cases "createShootingStar (width st) (height st) (shootingStars st) g1")
  from session_ok [OF assms, of w h es] c
  have g0: "rng_ok g0" and ok: "list_all shooting_ok (shootingStars st)"
    by (simp_all add: config_ok_def)
  from updateAllDust_ok [OF g0 d] have g1: "rng_ok g1" .
  from createShootingStar_cases [OF g1 s]
  have p: "spawned = shootingStars st \<or> (\<exists>s. spawned = shootingStars st @ [s])"
    by blast
  from spawn_frames_left [OF g1 s ok]
  have l: "length (shootingStars st) \<le> length spawned"
    "length spawned \<le> Suc (length (shootingStars st))" by simp_all
  have a: "shootingStars (fst (session w h g (es @ [Frame]))) =
           forEach_shootingStar (width st) (height st) (length spawned) 0 spawned"
    by (simp add: session_snoc step_Frame c animate_def Let_def d s)
  have b: "length (shootingStars (fst (session w h g (es @ [Frame])))) \<le> length spawned"
    unfolding a by (simp add: forEach_is_sweep sweep_length)
  from shooting_stars_bounded [OF assms, of w h "es @ [Frame]"] a b l p show ?thesis
    by (simp add: Let_def c d s)
qed

theorem C6_spawn_then_sweep_witness:
  "rng_ok (steady 0.005) \<and>
   (let c = session 800 600 (steady 0.005) []; st = fst c;
        g1 = snd (updateAllDust (width st) (height st) (cosmicDust st) (snd c));
        spawned = fst (createShootingStar (width st) (height st) (shootingStars st) g1);
        st' = fst (session 800 600 (steady 0.005) ([] @ [Frame]))
    in (spawned = shootingStars st \<or> (\<exists>s. spawned = shootingStars st @ [s])) \<and>
       shootingStars st' =
         forEach_shootingStar (width st) (height st) (length spawned) 0 spawned \<and>
       length (shootingStars st) \<le> length spawned \<and>
       length spawned \<le> length (shootingStars st) + 1 \<and>
       length (shootingStars st') \<le> length spawned \<and>
       length (shootingStars st') \<le> 105800) \<and>
   length (shootingStars (fst (session 800 600 (steady 0.005) [Frame]))) = 1"
proof -
  have r: "rng_ok (steady 0.005)" by (simp add: rng_ok_def steady_def)
  have "length (shootingStars (fst (session 800 600 (steady 0.005) [Frame]))) = 1"
    using first_frame by (simp add: steady_def)
  with C6_spawn_then_sweep [OF r, of 800 600 "[]"] r show ?thesis by simp
qed

text \<open>
  The claim as it stands fails on the first frame after mounting on an 800 by 600 window
  with all draws 0.005. The frame spawns a star at (4, 1.5) with 80.75 frames to live.
  In the code the pass then moves it, to (8.04, 3.52) with 79.75 frames left; with the
  removal pass before the spawn check it would end the frame as spawned.
\<close>

theorem C6_spawned_star_moved_at_once:
  "shootingStars (fst (animate (fst (mount 800 600 (steady 0.005)))
                               (snd (mount 800 600 (steady 0.005))))) =
     [\<lparr>ShootingStar.x = 8.04, ShootingStar.y = 3.52, ShootingStar.vx = 4.04,
       ShootingStar.vy = 2.02, length' = 50.4, ShootingStar.opacity = 0.7975,
       ShootingStar.life = 79.75\<rparr>] \<and>
   shootingStars (fst (animate_removal_first (fst (mount 800 600 (steady 0.005)))
                                             (snd (mount 800 600 (steady 0.005))))) =
     [\<lparr>ShootingStar.x = 4, ShootingStar.y = 1.5, ShootingStar.vx = 4.04,
       ShootingStar.vy = 2.02, length' = 50.4, ShootingStar.opacity = 1,
       ShootingStar.life = 80.75\<rparr>]"
  by (simp add: steady_def mount_const animate_const animate_removal_first_const spawned_at_def
      moveShootingStar_def Let_def spliced_def)

lemma createShootingStar_range:
  assumes "rng_ok g" and "createShootingStar w h active g = (active', g')"
  shows "active' = active \<or> (\<exists>s. active' = active @ [s] \<and> in_spawn_range w h s)"
  using createShootingStar_cases [OF assms] unfolding in_spawn_range_def by blast

lemma active_star_facts:
  assumes "shooting_ok s"
  shows "0 \<le> ShootingStar.x s \<and> 0 \<le> ShootingStar.y s \<and>
         4 \<le> ShootingStar.vx s \<and> ShootingStar.vx s < 12 \<and>
         2 \<le> ShootingStar.vy s \<and> ShootingStar.vy s < 6 \<and>
         ShootingStar.x s < ShootingStar.x (moveShootingStar s) \<and>
         ShootingStar.y s < ShootingStar.y (moveShootingStar s) \<and>
         (spliced w h (moveShootingStar s) \<longleftrightarrow>
            ShootingStar.life (moveShootingStar s) \<le> 0 \<or>
            ShootingStar.x (moveShootingStar s) < 0 \<or>
            ShootingStar.x (moveShootingStar s) > real w \<or>
            ShootingStar.y (moveShootingStar s) < 0 \<or>
            ShootingStar.y (moveShootingStar s) > real h)"
proof -
  from assms have b: "0 \<le> ShootingStar.x s" "0 \<le> ShootingStar.y s"
    "4 \<le> ShootingStar.vx s" "ShootingStar.vx s < 12"
    "2 \<le> ShootingStar.vy s" "ShootingStar.vy s < 6"
    by (simp_all add: shooting_ok_def)
  have m: "ShootingStar.x (moveShootingStar s) = ShootingStar.x s + ShootingStar.vx s"
    "ShootingStar.y (moveShootingStar s) = ShootingStar.y s + ShootingStar.vy s"
    by (simp_all add: moveShootingStar_simps)
  from b m have p: "0 \<le> ShootingStar.x (moveShootingStar s)"
    "0 \<le> ShootingStar.y (moveShootingStar s)"
    "ShootingStar.x s < ShootingStar.x (moveShootingStar s)"
    "ShootingStar.y s < ShootingStar.y (moveShootingStar s)"
    by simp_all
  from p(1,2) have "spliced w h (moveShootingStar s) \<longleftrightarrow>
            ShootingStar.life (moveShootingStar s) \<le> 0 \<or>
            ShootingStar.x (moveShootingStar s) < 0 \<or>
            ShootingStar.x (moveShootingStar s) > real w \<or>
            ShootingStar.y (moveShootingStar s) < 0 \<or>
            ShootingStar.y (moveShootingStar s) > real h"
    unfolding spliced_def by linarith
  with b p(3,4) show ?thesis by blast
qed

text \<open>
  C10. With draws between 0 and 1, after any events: every active shooting star has
  coordinates that are not negative and velocity components in the ranges from 4 to 12
  and from 2 to 6, so a move increases both coordinates, and the moved star fails the
  removal test exactly when its life is used up or it lies outside the canvas on any
  side. Every star active after the next frame is a star that was active before it or a
  star spawned in it, moved once or passed over; a spawned star lies in the top half of
  the canvas, strictly so when the canvas has a height, with velocity components in
  those ranges.
\<close>

theorem C10_shooting_star_motion:
  assumes "rng_ok g"
  shows "let st = fst (session w h g es); st' = fst (session w h g (es @ [Frame]))
         in (\<forall>s \<in> set (shootingStars st).
               0 \<le> ShootingStar.x s \<and> 0 \<le> ShootingStar.y s \<and>
               4 \<le> ShootingStar.vx s \<and> ShootingStar.vx s < 12 \<and>
               2 \<le> ShootingStar.vy s \<and> ShootingStar.vy s < 6 \<and>
               ShootingStar.x s < ShootingStar.x (moveShootingStar s) \<and>
               ShootingStar.y s < ShootingStar.y (moveShootingStar s) \<and>
               (spliced (width st) (height st) (moveShootingStar s) \<longleftrightarrow>
                  ShootingStar.life (moveShootingStar s) \<le> 0 \<or>
                  ShootingStar.x (moveShootingStar s) < 0 \<or>
                  ShootingStar.x (moveShootingStar s) > real (width st) \<or>
                  ShootingStar.y (moveShootingStar s) < 0 \<or>
                  ShootingStar.y (moveShootingStar s) > real (height st))) \<and>
            (\<forall>s' \<in> set (shootingStars st').
               \<exists>s. (s' = s \<or> s' = moveShootingStar s) \<and>
                   (s \<in> set (shootingStars st) \<or> in_spawn_range (width st) (height st) s))"
proof -
  obtain st g0 where c: "session w h g es = (st, g0)" by (cases "session w h g es")
  obtain st' g' where a: "animate st g0 = (st', g')" by (cases "animate st g0")
  from session_ok [OF assms, of w h es] c
  have g0: "rng_ok g0" and ok: "list_all shooting_ok (shootingStars st)"
    by (simp_all add: config_ok_def)
  from a obtain dust g1 spawned where
    d: "updateAllDust (width st) (height st) (cosmicDust st) g0 = (dust, g1)" and
    s: "createShootingStar (width st) (height st) (shootingStars st) g1 = (spawned, g')" and
    st': "st' = st\<lparr>nebulaClouds := map updateNebulaCloud (nebulaClouds st), cosmicDust := dust,
              stars := map updateStar (stars st),
              shootingStars := sweep (width st) (height st) spawned\<rparr>"
    by (rule animate_unfold)
  from updateAllDust_ok [OF g0 d] have g1: "rng_ok g1" .
  note sp = createShootingStar_range [OF g1 s]
  have second: "\<exists>s. (s' = s \<or> s' = moveShootingStar s) \<and>
                   (s \<in> set (shootingStars st) \<or> in_spawn_range (width st) (height st) s)"
    if "s' \<in> set (shootingStars st')" for s'
  proof -
    from that st' have "s' \<in> set (sweep (width st) (height st) spawned)" by simp
    from sweep_set [OF this] obtain s where
      s: "s \<in> set spawned" "s' = s \<or> s' = moveShootingStar s" by blast
    from sp s(1)
    have "s \<in> set (shootingStars st) \<or> in_spawn_range (width st) (height st) s"
      by auto
    with s(2) show ?thesis by blast
  qed
  have e: "fst (session w h g (es @ [Frame])) = st'" "fst (session w h g es) = st"
    by (simp_all add: session_snoc step_Frame c a)
  have first: "\<forall>s \<in> set (shootingStars st).
               0 \<le> ShootingStar.x s \<and> 0 \<le> ShootingStar.y s \<and>
               4 \<le> ShootingStar.vx s \<and> ShootingStar.vx s < 12 \<and>
               2 \<le> ShootingStar.vy s \<and> ShootingStar.vy s < 6 \<and>
               ShootingStar.x s < ShootingStar.x (moveShootingStar s) \<and>
               ShootingStar.y s < ShootingStar.y (moveShootingStar s) \<and>
               (spliced (width st) (height st) (moveShootingStar s) \<longleftrightarrow>
                  ShootingStar.life (moveShootingStar s) \<le> 0 \<or>
                  ShootingStar.x (moveShootingStar s) < 0 \<or>
                  ShootingStar.x (moveShootingStar s) > real (width st) \<or>
                  ShootingStar.y (moveShootingStar s) < 0 \<or>
                  ShootingStar.y (moveShootingStar s) > real (height st))"
  proof (rule ballI)
    fix s assume "s \<in> set (shootingStars st)"
    with ok have "shooting_ok s" by (simp add: list_all_iff)
    then show "0 \<le> ShootingStar.x s \<and> 0 \<le> ShootingStar.y s \<and>
               4 \<le> ShootingStar.vx s \<and> ShootingStar.vx s < 12 \<and>
               2 \<le> ShootingStar.vy s \<and> ShootingStar.vy s < 6 \<and>
               ShootingStar.x s < ShootingStar.x (moveShootingStar s) \<and>
               ShootingStar.y s < ShootingStar.y (moveShootingStar s) \<and>
               (spliced (width st) (height st) (moveShootingStar s) \<longleftrightarrow>
                  ShootingStar.life (moveShootingStar s) \<le> 0 \<or>
                  ShootingStar.x (moveShootingStar s) < 0 \<or>
                  ShootingStar.x (moveShootingStar s) > real (width st) \<or>
                  ShootingStar.y (moveShootingStar s) < 0 \<or>
                  ShootingStar.y (moveShootingStar s) > real (height st))"
      by (rule active_star_facts)
  qed
  from second have "\<forall>s' \<in> set (shootingStars st').
               \<exists>s. (s' = s \<or> s' = moveShootingStar s) \<and>
                   (s \<in> set (shootingStars st) \<or> in_spawn_range (width st) (height st) s)"
    by (rule ballI)
  with first show ?thesis
    unfolding Let_def e by (rule conjI)
qed

theorem C10_shooting_star_motion_witness:
  "rng_ok (steady 0.005) \<and>
   (let st = fst (session 800 600 (steady 0.005) [Frame]);
        st' = fst (session 800 600 (steady 0.005) ([Frame] @ [Frame]))
    in (\<forall>s \<in> set (shootingStars st).
          0 \<le> ShootingStar.x s \<and> 0 \<le> ShootingStar.y s \<and>
          4 \<le> ShootingStar.vx s \<and> ShootingStar.vx s < 12 \<and>
          2 \<le> ShootingStar.vy s \<and> ShootingStar.vy s < 6 \<and>
          ShootingStar.x s < ShootingStar.x (moveShootingStar s) \<and>
          ShootingStar.y s < ShootingStar.y (moveShootingStar s) \<and>
          (spliced (width st) (height st) (moveShootingStar s) \<longleftrightarrow>
             ShootingStar.life (moveShootingStar s) \<le> 0 \<or>
             ShootingStar.x (moveShootingStar s) < 0 \<or>
             ShootingStar.x (moveShootingStar s) > real (width st) \<or>
             ShootingStar.y (moveShootingStar s) < 0 \<or>
             ShootingStar.y (moveShootingStar s) > real (height st))) \<and>
       (\<forall>s' \<in> set (shootingStars st').
          \<exists>s. (s' = s \<or> s' = moveShootingStar s) \<and>
              (s \<in> set (shootingStars st) \<or> in_spawn_range (width st) (height st) s))) \<and>
   shootingStars (fst (session 800 600 (steady 0.005) [Frame])) =
     [\<lparr>ShootingStar.x = 8.04, ShootingStar.y = 3.52, ShootingStar.vx = 4.04,
       ShootingStar.vy = 2.02, length' = 50.4, ShootingStar.opacity = 0.7975,
       ShootingStar.life = 79.75\<rparr>]"
proof -
  have r: "rng_ok (steady 0.005)" by (simp add: rng_ok_def steady_def)
  have f: "shootingStars (fst (session 800 600 (steady 0.005) [Frame])) =
     [\<lparr>ShootingStar.x = 8.04, ShootingStar.y = 3.52, ShootingStar.vx = 4.04,
       ShootingStar.vy = 2.02, length' = 50.4, ShootingStar.opacity = 0.7975,
       ShootingStar.life = 79.75\<rparr>]"
    unfolding steady_def by (rule first_frame)
  from r f C10_shooting_star_motion [OF r, of 800 600 "[Frame]"] show ?thesis
    by blast
qed

subsection \<open>Persistence and drift\<close>

lemma populate_length: "length (fst (populate create k g)) = k"
  by (induction k arbitrary: g) (simp_all add: case_prod_beta)

lemma mount_lengths:
  "length (stars (fst (mount w h g))) = starCount"
  "length (nebulaClouds (fst (mount w h g))) = nebulaCount"
  by (simp_all add: mount_def case_prod_beta populate_length)

lemma step_populations:
  "stars (fst (step e c)) =
     (case e of Frame \<Rightarrow> map updateStar (stars (fst c)) | Resize a b \<Rightarrow> stars (fst c))"
  "nebulaClouds (fst (step e c)) =
     (case e of Frame \<Rightarrow> map updateNebulaCloud (nebulaClouds (fst c))
              | Resize a b \<Rightarrow> nebulaClouds (fst c))"
  by (cases e; simp add: step_Frame step_Resize animate_def Let_def case_prod_beta
      resizeCanvas_def)+

lemma run_lengths:
  "length (stars (fst (run es c))) = length (stars (fst c)) \<and>
   length (nebulaClouds (fst (run es c))) = length (nebulaClouds (fst c))"
proof (induction es arbitrary: c)
  case Nil
  show ?case by simp
next
  case (Cons e es)
  show ?case using Cons [of "step e c"]
    by (simp add: step_populations split: event.splits)
qed

lemma session_lengths:
  "length (stars (fst (session w h g es))) = starCount"
  "length (nebulaClouds (fst (session w h g es))) = nebulaCount"
  by (simp_all add: session_def run_lengths mount_lengths)

lemma updateNebulaCloud_simps:
  "NebulaCloud.x (updateNebulaCloud c) =
     NebulaCloud.x c + sin ((pulsePhase c + 0.08) * 0.5) * 0.3"
  "NebulaCloud.y (updateNebulaCloud c) =
     NebulaCloud.y c + cos ((pulsePhase c + 0.08) * 0.3) * 0.2"
  "pulsePhase (updateNebulaCloud c) = pulsePhase c + 0.08"
  by (simp_all add: updateNebulaCloud_def Let_def)

lemma drift_small:
  "\<bar>sin a * 0.3\<bar> \<le> (0.3 :: real)" "\<bar>cos a * 0.2\<bar> \<le> (0.2 :: real)"
proof -
  have "\<bar>sin a\<bar> \<le> 1" "\<bar>cos a\<bar> \<le> 1" by simp_all
  then show "\<bar>sin a * 0.3\<bar> \<le> (0.3 :: real)" "\<bar>cos a * 0.2\<bar> \<le> (0.2 :: real)"
    by (simp_all add: abs_mult)
qed

text \<open>
  C7, as amended. Stars and nebula clouds are never removed: after any events there are
  300 stars and 12 nebula clouds. The position of a star never changes. The position of
  a nebula cloud changes on each frame by \<open>0.3 * sin (0.5 * p)\<close> and
  \<open>0.2 * cos (0.3 * p)\<close>, where \<open>p\<close> is its pulse phase just advanced by 0.08, and not
  at all on a resize. Nothing wraps a cloud at the edges of the viewport.
\<close>

theorem C7_particles_persist_without_wrapping:
  "let st = fst (session w h g es); st' = fst (session w h g (es @ [e]))
   in length (stars st') = starCount \<and> length (nebulaClouds st') = nebulaCount \<and>
      (\<forall>i < starCount.
         Star.x (stars st' ! i) = Star.x (stars st ! i) \<and>
         Star.y (stars st' ! i) = Star.y (stars st ! i)) \<and>
      (\<forall>i < nebulaCount.
         (e = Frame \<longrightarrow>
            NebulaCloud.x (nebulaClouds st' ! i) =
              NebulaCloud.x (nebulaClouds st ! i) +
              sin ((pulsePhase (nebulaClouds st ! i) + 0.08) * 0.5) * 0.3 \<and>
            NebulaCloud.y (nebulaClouds st' ! i) =
              NebulaCloud.y (nebulaClouds st ! i) +
              cos ((pulsePhase (nebulaClouds st ! i) + 0.08) * 0.3) * 0.2) \<and>
         (e \<noteq> Frame \<longrightarrow>
            NebulaCloud.x (nebulaClouds st' ! i) = NebulaCloud.x (nebulaClouds st ! i) \<and>
            NebulaCloud.y (nebulaClouds st' ! i) = NebulaCloud.y (nebulaClouds st ! i)) \<and>
         \<bar>NebulaCloud.x (nebulaClouds st' ! i) - NebulaCloud.x (nebulaClouds st ! i)\<bar> \<le> 0.3 \<and>
         \<bar>NebulaCloud.y (nebulaClouds st' ! i) - NebulaCloud.y (nebulaClouds st ! i)\<bar> \<le> 0.2)"
proof -
  let ?c = "session w h g es"
  have l: "length (stars (fst ?c)) = starCount" "length (nebulaClouds (fst ?c)) = nebulaCount"
    by (rule session_lengths)+
  show ?thesis
  proof (cases e)
    case Frame
    then show ?thesis
      using l drift_small
      by (simp add: Let_def session_snoc step_populations updateStar_simps
          updateNebulaCloud_simps)
  next
    case (Resize a b)
    then show ?thesis
      using l by (simp add: Let_def session_snoc step_populations)
  qed
qed

lemma createStar_snd: "snd (createStar w h g) = (\<lambda>n. g (n + 7))"
  by (simp add: createStar_def Math_random_def eval_nat_numeral)

lemma populate_snd_shift:
  assumes "\<And>g. snd (create g) = (\<lambda>n. g (n + d))"
  shows "snd (populate create k g) = (\<lambda>n. g (n + d * k))"
proof (induction k arbitrary: g)
  case 0
  show ?case by simp
next
  case (Suc k)
  have "snd (populate create (Suc k) g) = snd (populate create k (snd (create g)))"
    by (simp add: case_prod_beta)
  also have "\<dots> = (\<lambda>n. snd (create g) (n + d * k))" by (rule Suc)
  also have "\<dots> = (\<lambda>n. g (n + d * Suc k))" by (simp add: assms ac_simps)
  finally show ?case .
qed

lemma populate_first: "fst (populate create (Suc k) g) ! 0 = fst (create g)"
  by (simp add: case_prod_beta)

lemma mount_first_cloud:
  "nebulaClouds (fst (mount w h g)) ! 0 =
     fst (createNebulaCloud w h (\<lambda>n. g (n + 7 * starCount)))"
proof -
  have "nebulaCount = Suc 11" by (simp add: nebulaCount_def)
  then show ?thesis
    using populate_first [of "createNebulaCloud w h" 11]
    by (simp add: mount_def case_prod_beta
        populate_snd_shift [of "createStar w h" 7, OF createStar_snd])
qed

lemma nebula_rng_shift: "(\<lambda>n. nebula_rng (n + 7 * starCount)) = nebula_rng"
  by (rule ext) (simp add: nebula_rng_def)

lemma first_cloud:
  "NebulaCloud.x (nebulaClouds (fst (session 800 600 nebula_rng [])) ! 0) = 0"
  "pulsePhase (nebulaClouds (fst (session 800 600 nebula_rng [])) ! 0) = 0.99 * pi * 2"
  by (simp_all add: session_def mount_first_cloud nebula_rng_shift createNebulaCloud_def
      Math_random_def nebula_rng_def)

lemma first_cloud_drift: "sin ((0.99 * pi * 2 + 0.08) * 0.5) < 0"
proof (rule sin_lt_zero)
  have "pi < 4" by (rule pi_less_4)
  then show "pi < (0.99 * pi * 2 + 0.08) * 0.5" by simp
  have "0 < pi" by simp
  then show "(0.99 * pi * 2 + 0.08) * 0.5 < 2 * pi" using pi_ge_two by simp
qed

text \<open>
  The claim as it stands fails on the first frame after mounting on an 800 by 600 window
  with the draws of \<open>nebula_rng\<close>: the first nebula cloud is created at the left edge
  with a pulse phase of \<open>0.99 * pi * 2\<close>, and the frame moves it to the left of the
  canvas.
\<close>

theorem C7_cloud_leaves_viewport:
  "NebulaCloud.x (nebulaClouds (fst (session 800 600 nebula_rng [])) ! 0) = 0 \<and>
   NebulaCloud.x (nebulaClouds (fst (session 800 600 nebula_rng [Frame])) ! 0) < 0"
proof -
  have "nebulaClouds (fst (session 800 600 nebula_rng [Frame])) ! 0 =
        updateNebulaCloud (nebulaClouds (fst (session 800 600 nebula_rng [])) ! 0)"
    using session_snoc [of 800 600 nebula_rng "[]" Frame]
      session_lengths(2) [of 800 600 nebula_rng "[]"]
    by (simp add: step_populations nebulaCount_def)
  then have "NebulaCloud.x (nebulaClouds (fst (session 800 600 nebula_rng [Frame])) ! 0) =
        0 + sin ((0.99 * pi * 2 + 0.08) * 0.5) * 0.3"
    by (simp only: updateNebulaCloud_simps first_cloud)
  with first_cloud(1) first_cloud_drift show ?thesis by simp
qed

theorem C7_particles_persist_without_wrapping_witness:
  "0 < starCount \<and> 0 < nebulaCount \<and>
   length (stars (fst (session 800 600 nebula_rng ([] @ [Frame])))) = starCount \<and>
   length (nebulaClouds (fst (session 800 600 nebula_rng ([] @ [Frame])))) = nebulaCount \<and>
   Star.x (stars (fst (session 800 600 nebula_rng ([] @ [Frame]))) ! 0) =
     Star.x (stars (fst (session 800 600 nebula_rng [])) ! 0) \<and>
   Star.y (stars (fst (session 800 600 nebula_rng ([] @ [Frame]))) ! 0) =
     Star.y (stars (fst (session 800 600 nebula_rng [])) ! 0) \<and>
   NebulaCloud.x (nebulaClouds (fst (session 800 600 nebula_rng ([] @ [Frame]))) ! 0) =
     NebulaCloud.x (nebulaClouds (fst (session 800 600 nebula_rng [])) ! 0) +
     sin ((pulsePhase (nebulaClouds (fst (session 800 600 nebula_rng [])) ! 0) + 0.08) * 0.5) * 0.3 \<and>
   \<bar>NebulaCloud.y (nebulaClouds (fst (session 800 600 nebula_rng ([] @ [Frame]))) ! 0) -
     NebulaCloud.y (nebulaClouds (fst (session 800 600 nebula_rng [])) ! 0)\<bar> \<le> 0.2"
proof -
  have c: "0 < starCount" "0 < nebulaCount" by (simp_all add: starCount_def nebulaCount_def)
  from C7_particles_persist_without_wrapping [of 800 600 nebula_rng "[]" Frame] c
  show ?thesis unfolding Let_def by blast
qed

section \<open>The contact intake function: results\<close>

lemma example_parse_without_name:
  \<open>example_parse ''{"email":"a@b.com","message":"hi"}'' =
     Inr (JObject [(''email'', JString ''a@b.com''), (''message'', JString ''hi'')])\<close>
  by (simp add: example_parse_def)

lemma example_parse_complete:
  \<open>example_parse ''{"name":"A","email":"a@b.com","message":"hi"}'' =
     Inr (JObject [(''name'', JString ''A''), (''email'', JString ''a@b.com''),
                   (''message'', JString ''hi'')])\<close>
  by (simp add: example_parse_def)

subsection \<open>Required fields\<close>

text \<open>Whatever the request, the handler answers 200, 404 or 500.\<close>

lemma handler_status:
  "statusCode (fst (handler rt ev w)) = 200 \<or> statusCode (fst (handler rt ev w)) = 404 \<or>
   statusCode (fst (handler rt ev w)) = 500"
  by (auto simp: handler_def contact_def caught_def send_def Date_now_def Let_def
      split: sum.splits prod.splits option.splits)

text \<open>
  C1. A POST to \<^verbatim>\<open>/api/contact\<close> whose body lacks \<^verbatim>\<open>name\<close>, \<^verbatim>\<open>email\<close> or \<^verbatim>\<open>message\<close>
  is to be answered with status 400 and nothing is to be written. The handler of
  \<^verbatim>\<open>server/simple-lambda.js\<close> has no such check: on a body without \<^verbatim>\<open>name\<close>, and a store
  that accepts the put, it writes a record whose \<^verbatim>\<open>name\<close> is undefined and answers 200.
\<close>

theorem C1_missing_name_is_stored:
  "handler example_runtime post_without_name example_world =
     (\<lparr>statusCode = 200, headers = json_headers,
       body = JSON_stringify
         (JObject [(''message'', JString ''Contact form submitted successfully''),
                   (''id'', JNumber 1767225600000)])\<rparr>,
      \<lparr>clock = (\<lambda>n. 1767225600000),
       accepted = [\<lparr>TableName = ''portfolio-contacts'',
                    Item = \<lparr>id' = 1767225600000, name = None,
                            email = Some (JString ''a@b.com''), subject = None,
                            message = Some (JString ''hi''),
                            createdAt = ''2026-01-01T00:00:00.000Z''\<rparr>\<rparr>]\<rparr>)"
  by (simp add: handler_def contact_def post_without_name_def example_runtime_def
      example_world_def example_parse_without_name or_default_def Date_now_def send_def
      example_iso_def)

text \<open>The handler listed in the deployment guide answers the same request with 400.\<close>

lemma guide_rejects_missing_name:
  "guide_handler example_runtime post_without_name example_world =
     (\<lparr>statusCode = 400, headers = guide_headers,
       body = JSON_stringify (JObject [(''error'', JString ''Missing required fields'')])\<rparr>,
      example_world)"
  by (simp add: guide_handler_def guide_contact_def post_without_name_def example_runtime_def
      example_parse_without_name)

subsection \<open>Failures\<close>

text \<open>
  Whatever fails in the contact branch, the response is the one built from the error
  caught, and the store is as it was.
\<close>

lemma failure_response:
  assumes "httpMethod ev = ''POST''" and "path ev = ''/api/contact''"
    and "fst (contact rt ev w) = Inl err"
  shows "fst (handler rt ev w) =
           \<lparr>statusCode = 500, headers = json_headers,
            body = JSON_stringify (JObject [(''message'', JString ''Internal server error''),
                                            (''error'', JString (message_of err))])\<rparr> \<and>
         accepted (snd (handler rt ev w)) = accepted w"
  using assms
  by (auto simp: handler_def contact_def caught_def send_def Date_now_def Let_def
      split: sum.splits prod.splits option.splits)

text \<open>
  C2. When persistence fails the response is to carry status 500 and a generic message,
  and never the detail of the original error. The handler of \<^verbatim>\<open>server/simple-lambda.js\<close>
  answers 500 with the generic message, and puts the message of the caught error next to
  it: here the store rejects the put with ``Requested resource not found'', and the body
  says so.
\<close>

theorem C2_error_detail_in_body:
  "handler store_down post_complete example_world =
     (\<lparr>statusCode = 500, headers = json_headers,
       body = JSON_stringify
         (JObject [(''message'', JString ''Internal server error''),
                   (''error'', JString ''Requested resource not found'')])\<rparr>,
      \<lparr>clock = (\<lambda>n. 1767225600000), accepted = []\<rparr>)"
  by (simp add: handler_def contact_def post_complete_def store_down_def example_runtime_def
      example_world_def example_parse_complete or_default_def Date_now_def send_def
      caught_def)

text \<open>The handler listed in the deployment guide keeps the detail out of the body.\<close>

lemma guide_hides_error_detail:
  "guide_handler store_down post_complete example_world =
     (\<lparr>statusCode = 500, headers = guide_headers,
       body = JSON_stringify (JObject [(''error'', JString ''Internal server error'')])\<rparr>,
      \<lparr>clock = (\<lambda>n. 1767225600000), accepted = []\<rparr>)"
  by (simp add: guide_handler_def guide_contact_def post_complete_def store_down_def
      example_runtime_def example_world_def example_parse_complete Date_now_def send_def)

subsection \<open>Health check\<close>

text \<open>
  C4, as amended. A GET of \<^verbatim>\<open>/health\<close> is answered with status 200 and a body whose
  \<^verbatim>\<open>status\<close> is ``ok'' and whose \<^verbatim>\<open>timestamp\<close> is the ISO string of the current
  instant; nothing else changes but the clock. A GET of \<^verbatim>\<open>/api/health\<close> is not a route of
  this handler and is answered with 404 ``Not Found''.
\<close>

theorem C4_health_routes:
  "httpMethod ev = ''GET'' \<Longrightarrow>
     (path ev = ''/health'' \<longrightarrow>
        handler rt ev w =
          (\<lparr>statusCode = 200, headers = json_headers,
            body = JSON_stringify
              (JObject [(''status'', JString ''ok''),
                        (''timestamp'', JString (toISOString rt (clock w 0)))])\<rparr>,
           w\<lparr>clock := \<lambda>n. clock w (Suc n)\<rparr>)) \<and>
     (path ev = ''/api/health'' \<longrightarrow>
        handler rt ev w =
          (\<lparr>statusCode = 404, headers = json_headers,
            body = JSON_stringify (JObject [(''message'', JString ''Not Found'')])\<rparr>, w))"
  by (simp add: handler_def Date_now_def)

theorem C4_health_routes_witness:
  "handler example_runtime get_health example_world =
     (\<lparr>statusCode = 200, headers = json_headers,
       body = JSON_stringify
         (JObject [(''status'', JString ''ok''),
                   (''timestamp'', JString ''2026-01-01T00:00:00.000Z'')])\<rparr>,
      example_world) \<and>
   handler example_runtime get_api_health example_world =
     (\<lparr>statusCode = 404, headers = json_headers,
       body = JSON_stringify (JObject [(''message'', JString ''Not Found'')])\<rparr>,
      example_world)"
  using C4_health_routes [of get_health example_runtime example_world]
        C4_health_routes [of get_api_health example_runtime example_world]
  by (simp add: get_health_def get_api_health_def example_runtime_def example_world_def
      example_iso_def)

text \<open>The claim as it stands fails on \<^verbatim>\<open>/api/health\<close>.\<close>

theorem C4_api_health_not_found:
  "statusCode (fst (handler example_runtime get_api_health example_world)) = 404"
  by (simp add: handler_def get_api_health_def)

text \<open>The handler listed in the deployment guide routes that path, with another status word.\<close>

lemma guide_api_health:
  "httpMethod ev = ''GET'' \<Longrightarrow> path ev = ''/api/health'' \<Longrightarrow>
   fst (guide_handler rt ev w) =
     \<lparr>statusCode = 200, headers = guide_headers,
      body = JSON_stringify
        (JObject [(''status'', JString ''healthy''),
                  (''timestamp'', JString (toISOString rt (clock w 0))),
                  (''environment'', JString ''production'')])\<rparr>"
  by (simp add: guide_handler_def Date_now_def)

subsection \<open>Identifiers\<close>

lemma contact_accepted:
  assumes "httpMethod ev = ''POST''" and "path ev = ''/api/contact''"
    and "statusCode (fst (handler rt ev w)) = 200"
  shows "\<exists>c. accepted (snd (handler rt ev w)) = accepted w @ [c] \<and>
              id' (Item c) = clock w 0 \<and>
              clock (snd (handler rt ev w)) = (\<lambda>n. clock w (Suc (Suc n))) \<and>
              body (fst (handler rt ev w)) =
                JSON_stringify
                  (JObject [(''message'', JString ''Contact form submitted successfully''),
                            (''id'', JNumber (of_int (clock w 0)))])"
  using assms
  by (auto simp: handler_def contact_def caught_def send_def Date_now_def Let_def
      split: sum.splits prod.splits option.splits)

text \<open>
  C9, as amended. On a successful POST to \<^verbatim>\<open>/api/contact\<close> the identifier of the record
  is the clock reading the handler takes when it builds the record, whatever the body
  holds. Two such calls in sequence, with the same event, add two puts to the store, the
  first with the first reading and the second with the third (each call reads the clock
  twice), and each response carries its identifier; the two identifiers differ exactly
  when those two readings differ.
\<close>

theorem C9_ids_are_clock_readings:
  assumes "httpMethod ev = ''POST''" and "path ev = ''/api/contact''"
    and "statusCode (fst (fst (two_calls rt ev w))) = 200"
    and "statusCode (snd (fst (two_calls rt ev w))) = 200"
  shows "\<exists>c1 c2. accepted (snd (two_calls rt ev w)) = accepted w @ [c1, c2] \<and>
           id' (Item c1) = clock w 0 \<and> id' (Item c2) = clock w 2 \<and>
           body (fst (fst (two_calls rt ev w))) =
             JSON_stringify
               (JObject [(''message'', JString ''Contact form submitted successfully''),
                         (''id'', JNumber (of_int (clock w 0)))]) \<and>
           body (snd (fst (two_calls rt ev w))) =
             JSON_stringify
               (JObject [(''message'', JString ''Contact form submitted successfully''),
                         (''id'', JNumber (of_int (clock w 2)))]) \<and>
           (id' (Item c1) \<noteq> id' (Item c2) \<longleftrightarrow> clock w 0 \<noteq> clock w 2)"
proof -
  obtain r1 w1 where h1: "handler rt ev w = (r1, w1)" by (cases "handler rt ev w")
  obtain r2 w2 where h2: "handler rt ev w1 = (r2, w2)" by (cases "handler rt ev w1")
  have t: "two_calls rt ev w = ((r1, r2), w2)" by (simp add: two_calls_def h1 h2)
  from assms(3,4) t have s1: "statusCode r1 = 200" and s2: "statusCode r2 = 200" by simp_all
  from contact_accepted [OF assms(1,2), of rt w] h1 s1
  obtain c1 where c1: "accepted w1 = accepted w @ [c1]" "id' (Item c1) = clock w 0"
    "clock w1 = (\<lambda>n. clock w (Suc (Suc n)))"
    "body r1 = JSON_stringify
       (JObject [(''message'', JString ''Contact form submitted successfully''),
                 (''id'', JNumber (of_int (clock w 0)))])"
    by auto
  from contact_accepted [OF assms(1,2), of rt w1] h2 s2
  obtain c2 where c2: "accepted w2 = accepted w1 @ [c2]" "id' (Item c2) = clock w1 0"
    "body r2 = JSON_stringify
       (JObject [(''message'', JString ''Contact form submitted successfully''),
                 (''id'', JNumber (of_int (clock w1 0)))])"
    by auto
  have "clock w1 0 = clock w 2" by (simp add: c1(3) eval_nat_numeral)
  with c1 c2 t show ?thesis by auto
qed

lemma post_complete_succeeds:
  "statusCode (fst (handler example_runtime post_complete w)) = 200"
  by (simp add: handler_def contact_def post_complete_def example_runtime_def
      example_parse_complete or_default_def Date_now_def send_def)

theorem C9_ids_are_clock_readings_witness:
  "\<exists>c1 c2. accepted (snd (two_calls example_runtime post_complete ticking_world)) = [c1, c2] \<and>
     id' (Item c1) = 1767225600000 \<and> id' (Item c2) = 1767225600002 \<and>
     id' (Item c1) \<noteq> id' (Item c2)"
proof -
  have a: "httpMethod post_complete = ''POST''" "path post_complete = ''/api/contact''"
    by (simp_all add: post_complete_def)
  have b: "statusCode (fst (fst (two_calls example_runtime post_complete ticking_world))) = 200"
    "statusCode (snd (fst (two_calls example_runtime post_complete ticking_world))) = 200"
    by (simp_all add: two_calls_def case_prod_beta post_complete_succeeds)
  from C9_ids_are_clock_readings [OF a b] show ?thesis
    by (auto simp: ticking_world_def)
qed

text \<open>
  The claim as it stands fails when the clock gives the same reading to both calls: the
  two puts carry the same identifier.
\<close>

theorem C9_same_millisecond_same_id:
  "accepted (snd (two_calls example_runtime post_complete example_world)) =
     [\<lparr>TableName = ''portfolio-contacts'',
       Item = \<lparr>id' = 1767225600000, name = Some (JString ''A''),
               email = Some (JString ''a@b.com''), subject = None,
               message = Some (JString ''hi''),
               createdAt = ''2026-01-01T00:00:00.000Z''\<rparr>\<rparr>,
      \<lparr>TableName = ''portfolio-contacts'',
       Item = \<lparr>id' = 1767225600000, name = Some (JString ''A''),
               email = Some (JString ''a@b.com''), subject = None,
               message = Some (JString ''hi''),
               createdAt = ''2026-01-01T00:00:00.000Z''\<rparr>\<rparr>]"
  by (simp add: two_calls_def handler_def contact_def post_complete_def example_runtime_def
      example_world_def example_parse_complete or_default_def Date_now_def send_def
      example_iso_def)

end
